theory Spec2Isabelle
  imports Complex_Main
begin

section \<open>JavaScript values used by the parser\<close>

text \<open>
  A JavaScript number is an IEEE double. The model keeps the finite values as rationals
  (every finite double is one), together with the two infinities and NaN. Comparisons
  against NaN are false, as in JavaScript; \<open>-0\<close> is not told apart from \<open>0\<close> (both are
  falsy and compare equal).
\<close>

datatype jsnum = Num rat | PInf | NInf | NaN

fun js_lt :: "jsnum \<Rightarrow> jsnum \<Rightarrow> bool" where
  "js_lt NaN b = False"
| "js_lt a NaN = False"
| "js_lt (Num a) (Num b) = (a < b)"
| "js_lt (Num a) PInf = True"
| "js_lt (Num a) NInf = False"
| "js_lt PInf b = False"
| "js_lt NInf NInf = False"
| "js_lt NInf b = True"

definition js_gt :: "jsnum \<Rightarrow> jsnum \<Rightarrow> bool" where
  "js_gt a b = js_lt b a"

definition js_le :: "jsnum \<Rightarrow> jsnum \<Rightarrow> bool" where
  "js_le a b = (a \<noteq> NaN \<and> b \<noteq> NaN \<and> \<not> js_lt b a)"

text \<open>Truthiness of a number (\<open>0\<close> and NaN are falsy) and the operator \<open>x || d\<close>.\<close>

fun truthy_num :: "jsnum \<Rightarrow> bool" where
  "truthy_num (Num r) = (r \<noteq> 0)"
| "truthy_num NaN = False"
| "truthy_num PInf = True"
| "truthy_num NInf = True"

definition js_or :: "jsnum \<Rightarrow> jsnum \<Rightarrow> jsnum" where
  "js_or x d = (if truthy_num x then x else d)"

text \<open>
  The Number value of a non-negative rational \<open>q\<close>, which is what a numeric literal
  denotes: the double nearest to \<open>q\<close>, the one with the even significand when two are
  equally near, and \<open>Infinity\<close> when that rounding reaches \<open>2^1024\<close>. \<open>bits n\<close> is the
  length of \<open>n\<close> in binary and \<open>ilog2 q\<close> is the integer part of the binary logarithm of
  \<open>q\<close>; a double has 53 significant bits and its last bit is worth at least \<open>2^-1074\<close>.
\<close>

fun bits :: "nat \<Rightarrow> nat" where
  "bits n = (if n = 0 then 0 else Suc (bits (n div 2)))"

declare bits.simps [simp del]

definition ilog2 :: "rat \<Rightarrow> int" where
  "ilog2 q = (if 1 \<le> q then int (bits (nat \<lfloor>q\<rfloor>)) - 1
              else - int (bits (nat \<lceil>1 / q\<rceil> - 1)))"

definition pow2 :: "int \<Rightarrow> rat" where
  "pow2 k = (if 0 \<le> k then 2 ^ nat k else 1 / 2 ^ nat (- k))"

definition roundHalfEven :: "rat \<Rightarrow> int" where
  "roundHalfEven x =
     (let f = \<lfloor>x\<rfloor>; d = x - of_int f
      in if d < 1 / 2 then f else if 1 / 2 < d then f + 1 else if even f then f else f + 1)"

definition toDouble :: "rat \<Rightarrow> jsnum" where
  "toDouble q =
     (if q = 0 then Num 0
      else (let e = max (ilog2 q - 52) (- 1074);
                r = of_int (roundHalfEven (q / pow2 e)) * pow2 e
            in if pow2 1024 \<le> r then PInf else Num r))"

text \<open>
  Truthiness of an optional string property: \<open>undefined\<close> (\<open>None\<close>) and the empty
  string are falsy.
\<close>

fun truthy_str :: "string option \<Rightarrow> bool" where
  "truthy_str None = False"
| "truthy_str (Some s) = (s \<noteq> [])"

subsection \<open>Characters and strings\<close>

text \<open>
  Text is a list of code units below 256. \<open>is_space\<close> is the class \<open>\s\<close> (and what
  \<open>trim\<close> strips) on these code units: tab, line feed, vertical tab, form feed,
  carriage return, space and the no-break space.
\<close>

definition is_space :: "char \<Rightarrow> bool" where
  "is_space c = (c \<in> set [CHR 0x09, CHR 0x0A, CHR 0x0B, CHR 0x0C, CHR 0x0D, CHR 0x20, CHR 0xA0])"

definition is_digit :: "char \<Rightarrow> bool" where
  "is_digit c = (c \<in> set ''0123456789'')"

definition is_upper :: "char \<Rightarrow> bool" where
  "is_upper c = (c \<in> set ''ABCDEFGHIJKLMNOPQRSTUVWXYZ'')"

definition is_lower :: "char \<Rightarrow> bool" where
  "is_lower c = (c \<in> set ''abcdefghijklmnopqrstuvwxyz'')"

definition is_word :: "char \<Rightarrow> bool" where
  "is_word c = (is_upper c \<or> is_lower c \<or> is_digit c \<or> c = CHR ''_'')"

definition is_lt :: "char \<Rightarrow> bool" where
  "is_lt c = (c = CHR 0x0A \<or> c = CHR 0x0D)"

definition upper :: "char \<Rightarrow> char" where
  "upper c = (case map_of (zip ''abcdefghijklmnopqrstuvwxyz'' ''ABCDEFGHIJKLMNOPQRSTUVWXYZ'') c of
                Some u \<Rightarrow> u | None \<Rightarrow> c)"

definition nl :: string where
  "nl = [CHR 0x0A]"

definition trim :: "string \<Rightarrow> string" where
  "trim s = rev (dropWhile is_space (rev (dropWhile is_space s)))"

text \<open>\<open>s.includes(sub)\<close>.\<close>

fun js_includes :: "string \<Rightarrow> string \<Rightarrow> bool" where
  "js_includes [] sub = (sub = [])"
| "js_includes (c # cs) sub = (take (length sub) (c # cs) = sub \<or> js_includes cs sub)"

text \<open>\<open>s.indexOf(sub)\<close>: the first index where \<open>sub\<close> starts, or \<open>-1\<close>.\<close>

fun indexOf_from :: "nat \<Rightarrow> string \<Rightarrow> string \<Rightarrow> int" where
  "indexOf_from i [] sub = (if sub = [] then int i else - 1)"
| "indexOf_from i (c # cs) sub =
     (if take (length sub) (c # cs) = sub then int i else indexOf_from (Suc i) cs sub)"

definition indexOf :: "string \<Rightarrow> string \<Rightarrow> int" where
  "indexOf s sub = indexOf_from 0 s sub"

text \<open>
  \<open>s.substring(a, b)\<close>: both indices are clamped to \<open>[0, length]\<close> and swapped when
  out of order. \<open>substring_from s a\<close> is the one-argument form \<open>s.substring(a)\<close>.
\<close>

definition substring :: "string \<Rightarrow> int \<Rightarrow> int \<Rightarrow> string" where
  "substring s a b =
     (let len = int (length s);
          a' = min (max a 0) len;
          b' = min (max b 0) len;
          lo = min a' b';
          hi = max a' b'
      in take (nat (hi - lo)) (drop (nat lo) s))"

definition substring_from :: "string \<Rightarrow> int \<Rightarrow> string" where
  "substring_from s a = substring s a (int (length s))"

text \<open>\<open>s.split(c)\<close> for a one-character separator; the empty string gives \<open>['''']\<close>.\<close>

fun splitOn :: "char \<Rightarrow> string \<Rightarrow> string list" where
  "splitOn c [] = [[]]"
| "splitOn c (x # xs) =
     (if x = c then [] # splitOn c xs
      else (case splitOn c xs of [] \<Rightarrow> [[x]] | l # ls \<Rightarrow> (x # l) # ls))"

subsection \<open>\<open>parseInt\<close> and \<open>parseFloat\<close>\<close>

text \<open>
  Both are only ever applied to captures over the digits and \<open>.\<close>, so the sign, the
  \<open>0x\<close> prefix and the exponent of the full grammar never occur and are left out.
  \<open>parseInt\<close> reads the leading digits; \<open>parseFloat\<close> reads the longest leading decimal
  literal (\<open>12\<close>, \<open>12.\<close>, \<open>12.5\<close>, \<open>.5\<close>); with nothing to read the result is NaN.
  The result is the Number value of the decimal that was read: its nearest double, or
  \<open>Infinity\<close>.
\<close>

definition digit_val :: "char \<Rightarrow> nat" where
  "digit_val c = (case map_of (zip ''0123456789'' [0, 1, 2, 3, 4, 5, 6, 7, 8, 9]) c of
                    Some d \<Rightarrow> d | None \<Rightarrow> 0)"

definition nat_of_digits :: "string \<Rightarrow> nat" where
  "nat_of_digits ds = foldl (\<lambda>a c. 10 * a + digit_val c) 0 ds"

definition parseInt :: "string \<Rightarrow> jsnum" where
  "parseInt s =
     (let ds = takeWhile is_digit (dropWhile is_space s)
      in if ds = [] then NaN else toDouble (of_nat (nat_of_digits ds)))"

definition parseFloat :: "string \<Rightarrow> jsnum" where
  "parseFloat s =
     (let t = dropWhile is_space s;
          ip = takeWhile is_digit t;
          r = dropWhile is_digit t
      in case r of
           [] \<Rightarrow> if ip = [] then NaN else toDouble (of_nat (nat_of_digits ip))
         | c # r' \<Rightarrow>
             if c = CHR ''.'' then
               (let fp = takeWhile is_digit r'
                in if ip = [] \<and> fp = [] then NaN
                   else toDouble (of_nat (nat_of_digits ip) +
                                  of_nat (nat_of_digits fp) / 10 ^ length fp))
             else if ip = [] then NaN else toDouble (of_nat (nat_of_digits ip)))"

section \<open>Regular expressions\<close>

text \<open>
  The patterns of the parser use literals, character classes under a quantifier
  (greedy or lazy), sequence, alternation, capture groups that are never inside a
  quantifier, one positive lookahead, and the anchors \<open>^\<close> and \<open>$\<close>. \<open>Rep c lo hi g\<close> is the
  class \<open>c\<close> repeated \<open>lo\<close> to \<open>hi\<close> times (\<open>None\<close>: unbounded), greedy when \<open>g\<close>. \<open>LitI\<close> is
  a literal under the flag \<open>i\<close>. The flag of \<open>Bol\<close> and \<open>Eol\<close> is the flag \<open>m\<close>.
\<close>

datatype re =
    Lit string
  | LitI string
  | Rep "char \<Rightarrow> bool" nat "nat option" bool
  | Seq re re
  | Alt re re
  | Grp nat re
  | Ahead re
  | Bol bool
  | Eol bool

text \<open>
  The matcher is the backtracking matcher of the language standard, with the
  continuation written as a list of tasks. After a greedy class has taken all it can,
  \<open>Back n\<close> tries the rest of the pattern and gives one character back, up to \<open>n\<close>
  times; after a lazy class has taken its minimum, \<open>Fwd n\<close> tries the rest of the
  pattern and takes one more character, up to \<open>n\<close> times; \<open>Close g i\<close> ends capture
  group \<open>g\<close> that began at index \<open>i\<close>.
\<close>

datatype task = Run re | Close nat int | Back nat | Fwd nat

type_synonym caps = "(nat \<times> string) list"

primrec rsize :: "re \<Rightarrow> nat" where
  "rsize (Lit s) = 2"
| "rsize (LitI s) = 2"
| "rsize (Rep c lo hi g) = 2"
| "rsize (Seq a b) = rsize a + rsize b + 1"
| "rsize (Alt a b) = rsize a + rsize b + 1"
| "rsize (Grp g r) = rsize r + 2"
| "rsize (Ahead r) = rsize r + 1"
| "rsize (Bol ml) = 2"
| "rsize (Eol ml) = 2"

fun wt :: "task \<Rightarrow> nat" where
  "wt (Run r) = rsize r"
| "wt (Close g i) = 1"
| "wt (Back n) = 1"
| "wt (Fwd n) = 1"

fun ctr :: "task list \<Rightarrow> nat" where
  "ctr (Back n # ts) = n"
| "ctr (Fwd n # ts) = n"
| "ctr ts = 0"

text \<open>Whether the input begins with a literal, exactly or up to the case of letters.\<close>

fun starts :: "string \<Rightarrow> string \<Rightarrow> bool" where
  "starts [] rest = True"
| "starts (c # cs) [] = False"
| "starts (c # cs) (x # xs) = (if x = c then starts cs xs else False)"

fun starts_ci :: "string \<Rightarrow> string \<Rightarrow> bool" where
  "starts_ci [] rest = True"
| "starts_ci (c # cs) [] = False"
| "starts_ci (c # cs) (x # xs) =
     (if x = c then starts_ci cs xs
      else if upper x = upper c then starts_ci cs xs else False)"

text \<open>
  \<open>m ts i pre rest cs\<close>: run the tasks at index \<open>i\<close>, where \<open>pre\<close> is the input before
  \<open>i\<close> (reversed), \<open>rest\<close> the input from \<open>i\<close> on and \<open>cs\<close> the captures so far. The result
  is the end index and the captures of the first successful path, most recent first.
\<close>

function (sequential) m :: "task list \<Rightarrow> int \<Rightarrow> string \<Rightarrow> string \<Rightarrow> caps \<Rightarrow> (int \<times> caps) option" where
  "m [] i pre rest cs = Some (i, cs)"
| "m (Run (Lit s) # ts) i pre rest cs =
     (if starts s rest
      then m ts (i + int (length s)) (rev s @ pre) (drop (length s) rest) cs else None)"
| "m (Run (LitI s) # ts) i pre rest cs =
     (if starts_ci s rest
      then m ts (i + int (length s)) (rev (take (length s) rest) @ pre) (drop (length s) rest) cs
      else None)"
| "m (Run (Rep c lo hi g) # ts) i pre rest cs =
     (let n = length (takeWhile c rest);
          n' = (case hi of None \<Rightarrow> n | Some h \<Rightarrow> min h n)
      in if n' < lo then None
         else if g then
           m (Back (n' - lo) # ts) (i + int n') (rev (take n' rest) @ pre) (drop n' rest) cs
         else
           m (Fwd (n' - lo) # ts) (i + int lo) (rev (take lo rest) @ pre) (drop lo rest) cs)"
| "m (Back n # ts) i pre rest cs =
     (case m ts i pre rest cs of
        Some r \<Rightarrow> Some r
      | None \<Rightarrow>
          (case pre of
             [] \<Rightarrow> None
           | c # pre' \<Rightarrow>
               if 0 < n then m (Back (n - 1) # ts) (i - 1) pre' (c # rest) cs else None))"
| "m (Fwd n # ts) i pre rest cs =
     (case m ts i pre rest cs of
        Some r \<Rightarrow> Some r
      | None \<Rightarrow>
          (case rest of
             [] \<Rightarrow> None
           | c # rest' \<Rightarrow>
               if 0 < n then m (Fwd (n - 1) # ts) (i + 1) (c # pre) rest' cs else None))"
| "m (Run (Seq a b) # ts) i pre rest cs = m (Run a # Run b # ts) i pre rest cs"
| "m (Run (Alt a b) # ts) i pre rest cs =
     (case m (Run a # ts) i pre rest cs of
        Some r \<Rightarrow> Some r
      | None \<Rightarrow> m (Run b # ts) i pre rest cs)"
| "m (Run (Grp g r) # ts) i pre rest cs = m (Run r # Close g i # ts) i pre rest cs"
| "m (Close g i0 # ts) i pre rest cs =
     m ts i pre rest ((g, rev (take (nat (i - i0)) pre)) # cs)"
| "m (Run (Ahead r) # ts) i pre rest cs =
     (case m [Run r] i pre rest cs of
        Some (e, cs') \<Rightarrow> m ts i pre rest cs'
      | None \<Rightarrow> None)"
| "m (Run (Bol ml) # ts) i pre rest cs =
     (if i = 0 \<or> (ml \<and> (case pre of [] \<Rightarrow> False | c # p \<Rightarrow> is_lt c))
      then m ts i pre rest cs else None)"
| "m (Run (Eol ml) # ts) i pre rest cs =
     (if rest = [] \<or> (ml \<and> (case rest of [] \<Rightarrow> False | c # p \<Rightarrow> is_lt c))
      then m ts i pre rest cs else None)"
  by pat_completeness auto
termination
  by (relation "inv_image (less_than <*lex*> less_than)
        (\<lambda>(ts, i, pre, rest, cs). (sum_list (map wt ts), ctr ts))") auto

declare m.simps [simp del]

text \<open>A sequence of patterns, written as a list.\<close>

fun seqs :: "re list \<Rightarrow> re" where
  "seqs [] = Lit []"
| "seqs [r] = r"
| "seqs (r # rs) = Seq r (seqs rs)"

text \<open>
  A match result: the index of the match, the matched text (element 0 of the
  JavaScript result) and the captures. Every group of the patterns below takes part in
  every match, so the default of \<open>grp\<close> is never used.
\<close>

type_synonym rmatch = "int \<times> string \<times> caps"

definition whole :: "rmatch \<Rightarrow> string" where
  "whole mt = fst (snd mt)"

definition grp :: "rmatch \<Rightarrow> nat \<Rightarrow> string" where
  "grp mt g = (case map_of (snd (snd mt)) g of Some s \<Rightarrow> s | None \<Rightarrow> [])"

definition exec_at :: "re \<Rightarrow> int \<Rightarrow> string \<Rightarrow> string \<Rightarrow> rmatch option" where
  "exec_at r i pre rest =
     (case m [Run r] i pre rest [] of
        Some (e, cs) \<Rightarrow> Some (i, take (nat (e - i)) rest, cs)
      | None \<Rightarrow> None)"

text \<open>The leftmost match at or after index \<open>i\<close>.\<close>

fun search :: "re \<Rightarrow> int \<Rightarrow> string \<Rightarrow> string \<Rightarrow> rmatch option" where
  "search r i pre [] = exec_at r i pre []"
| "search r i pre (c # cs) =
     (case exec_at r i pre (c # cs) of
        Some mt \<Rightarrow> Some mt
      | None \<Rightarrow> search r (i + 1) (c # pre) cs)"

text \<open>\<open>s.match(r)\<close> for a pattern without the flag \<open>g\<close>, \<open>r.test(s)\<close> and \<open>s.search(r)\<close>.\<close>

definition js_match :: "re \<Rightarrow> string \<Rightarrow> rmatch option" where
  "js_match r s = search r 0 [] s"

definition js_test :: "re \<Rightarrow> string \<Rightarrow> bool" where
  "js_test r s = (js_match r s \<noteq> None)"

definition js_search :: "re \<Rightarrow> string \<Rightarrow> int" where
  "js_search r s = (case js_match r s of Some mt \<Rightarrow> fst mt | None \<Rightarrow> - 1)"

text \<open>
  All matches of a pattern with the flag \<open>g\<close>, left to right, as \<open>matchAll\<close> and a loop
  over \<open>exec\<close> produce them: the next match is looked for where the last one ended.
  \<open>skip\<close> counts the characters still covered by the last match; after an empty match
  the scan moves on by one character, as \<open>matchAll\<close> does (the two patterns run in a
  loop over \<open>exec\<close> cannot match the empty string).
\<close>

fun scan :: "re \<Rightarrow> int \<Rightarrow> string \<Rightarrow> string \<Rightarrow> nat \<Rightarrow> rmatch list" where
  "scan r i pre [] skip =
     (if 0 < skip then []
      else (case exec_at r i pre [] of Some mt \<Rightarrow> [mt] | None \<Rightarrow> []))"
| "scan r i pre (c # cs) skip =
     (if 0 < skip then scan r (i + 1) (c # pre) cs (skip - 1)
      else (case exec_at r i pre (c # cs) of
              Some mt \<Rightarrow> mt # scan r (i + 1) (c # pre) cs (length (whole mt) - 1)
            | None \<Rightarrow> scan r (i + 1) (c # pre) cs 0))"

definition js_matchAll :: "re \<Rightarrow> string \<Rightarrow> rmatch list" where
  "js_matchAll r s = scan r 0 [] s 0"

text \<open>
  \<open>s.split(r)\<close> for a pattern without groups that cannot match the empty string
  (the only separator pattern is \<open>/Inspection report/i\<close>). \<open>acc\<close> is the piece being
  collected, reversed.
\<close>

fun split_re :: "re \<Rightarrow> int \<Rightarrow> string \<Rightarrow> string \<Rightarrow> nat \<Rightarrow> string \<Rightarrow> string list" where
  "split_re r i pre [] skip acc = [rev acc]"
| "split_re r i pre (c # cs) skip acc =
     (if 0 < skip then split_re r (i + 1) (c # pre) cs (skip - 1) acc
      else (case exec_at r i pre (c # cs) of
              Some mt \<Rightarrow>
                if whole mt \<noteq> [] then
                  rev acc # split_re r (i + 1) (c # pre) cs (length (whole mt) - 1) []
                else split_re r (i + 1) (c # pre) cs 0 (c # acc)
            | None \<Rightarrow> split_re r (i + 1) (c # pre) cs 0 (c # acc)))"

definition js_split :: "re \<Rightarrow> string \<Rightarrow> string list" where
  "js_split r s = split_re r 0 [] s 0 []"

subsection \<open>Character classes and quantifiers of the patterns\<close>

definition any_char :: "char \<Rightarrow> bool" where
  "any_char c = True"

definition is_chr :: "char \<Rightarrow> char \<Rightarrow> bool" where
  "is_chr x c = (c = x)"

definition digit_dot :: "char \<Rightarrow> bool" where
  "digit_dot c = (is_digit c \<or> c = CHR ''.'')"

definition digit_dash :: "char \<Rightarrow> bool" where
  "digit_dash c = (is_digit c \<or> c = CHR ''-'')"

definition digit_dash_upper :: "char \<Rightarrow> bool" where
  "digit_dash_upper c = (is_digit c \<or> c = CHR ''-'' \<or> is_upper c)"

definition word_dash :: "char \<Rightarrow> bool" where
  "word_dash c = (is_word c \<or> c = CHR ''-'')"

definition not_nl :: "char \<Rightarrow> bool" where
  "not_nl c = (c \<noteq> CHR 0x0A)"

definition cr_lf :: "char \<Rightarrow> bool" where
  "cr_lf c = (c = CHR 0x0D \<or> c = CHR 0x0A)"

definition digit_space_quote :: "char \<Rightarrow> bool" where
  "digit_space_quote c = (is_digit c \<or> is_space c \<or> c = CHR 0x22)"

definition quote :: "char \<Rightarrow> bool" where
  "quote c = (c = CHR 0x27 \<or> c = CHR 0x22)"

definition one :: "(char \<Rightarrow> bool) \<Rightarrow> re" where
  "one c = Rep c 1 (Some 1) True"

definition opt :: "(char \<Rightarrow> bool) \<Rightarrow> re" where
  "opt c = Rep c 0 (Some 1) True"

definition star :: "(char \<Rightarrow> bool) \<Rightarrow> re" where
  "star c = Rep c 0 None True"

definition plus :: "(char \<Rightarrow> bool) \<Rightarrow> re" where
  "plus c = Rep c 1 None True"

definition star_lazy :: "(char \<Rightarrow> bool) \<Rightarrow> re" where
  "star_lazy c = Rep c 0 None False"

definition plus_lazy :: "(char \<Rightarrow> bool) \<Rightarrow> re" where
  "plus_lazy c = Rep c 1 None False"

definition times :: "(char \<Rightarrow> bool) \<Rightarrow> nat \<Rightarrow> nat \<Rightarrow> re" where
  "times c lo hi = Rep c lo (Some hi) True"

text \<open>The date shape \<^verbatim>\<open>\d{1,2}\/\d{1,2}\/\d{4}\<close>, which several patterns share.\<close>

definition datePat :: re where
  "datePat = seqs [times is_digit 1 2, Lit ''/'', times is_digit 1 2, Lit ''/'', times is_digit 4 4]"

section \<open>The Section Profile extractor (\<open>extractSectionProfileData\<close>)\<close>

record entry =
  no :: string
  psr :: string
  upstreamMH :: string
  downstreamMH :: string
  date :: string
  material :: string
  totalLength :: jsnum
  lengthSurveyed :: jsnum

text \<open>\<^verbatim>\<open>/Section Profile[\s\S]*?(?=Inspection report|$)/i\<close>\<close>

definition fullSectionPattern :: re where
  "fullSectionPattern =
     seqs [LitI ''Section Profile'', star_lazy any_char,
           Ahead (Alt (LitI ''Inspection report'') (Eol False))]"

text \<open>
  \<^verbatim>\<open>/^\s*(\d+)\s+(\d+)\s+([\d\-]+)\s+([\d\-A-Z]+)\s+(\d{1,2}\/\d{1,2}\/\d{4})\s+([A-Z]+)\s+([\d.]+)\s+([\d.]+)/gm\<close>
\<close>

definition spacedPattern :: re where
  "spacedPattern =
     seqs [Bol True, star is_space, Grp 1 (plus is_digit), plus is_space,
           Grp 2 (plus is_digit), plus is_space,
           Grp 3 (plus digit_dash), plus is_space,
           Grp 4 (plus digit_dash_upper), plus is_space,
           Grp 5 datePat, plus is_space,
           Grp 6 (plus is_upper), plus is_space,
           Grp 7 (plus digit_dot), plus is_space,
           Grp 8 (plus digit_dot)]"

text \<open>\<^verbatim>\<open>/\d{2,3}-\d{2}-\d{2}-\d{3}/\<close> and \<^verbatim>\<open>/\d{1,2}\/\d{1,2}\/\d{4}/\<close>, the two tests of a line.\<close>

definition hasMHPattern :: "string \<Rightarrow> bool" where
  "hasMHPattern line =
     js_test (seqs [times is_digit 2 3, Lit ''-'', times is_digit 2 2, Lit ''-'',
                    times is_digit 2 2, Lit ''-'', times is_digit 3 3]) line"

definition hasDate :: "string \<Rightarrow> bool" where
  "hasDate line = js_test datePat line"

definition hasHeaderText :: "string \<Rightarrow> bool" where
  "hasHeaderText line =
     (js_includes line ''No.'' \<or> js_includes line ''PSR'' \<or>
      js_includes line ''Upstream MH'' \<or> js_includes line ''Downstream MH'' \<or>
      js_includes line ''Material'' \<or> js_includes line ''Surveyed'')"

text \<open>The three \<open>continue\<close> statements at the head of the loop over the lines.\<close>

definition skipped :: "string \<Rightarrow> bool" where
  "skipped line =
     (trim line = [] \<or>
      (hasHeaderText line \<and> \<not> hasMHPattern line \<and> \<not> hasDate line) \<or>
      (js_includes line ''Circular ='' \<or> js_includes line ''Total Length (''))"

text \<open>\<^verbatim>\<open>/(\d{2,3}-\d{2}-\d{2}-\d{3}[A-Z]?)/g\<close>\<close>

definition mhPattern :: re where
  "mhPattern =
     Grp 1 (seqs [times is_digit 2 3, Lit ''-'', times is_digit 2 2, Lit ''-'',
                  times is_digit 2 2, Lit ''-'', times is_digit 3 3, opt is_upper])"

text \<open>\<^verbatim>\<open>/^(\d+)$/\<close>\<close>

definition digitsPattern :: re where
  "digitsPattern = seqs [Bol False, Grp 1 (plus is_digit), Eol False]"

text \<open>\<^verbatim>\<open>/^(\d{1,2}\/\d{1,2}\/\d{4})([A-Z]{2,4})([\d.]+)([\d.]+)/\<close>\<close>

definition restPattern :: re where
  "restPattern =
     seqs [Bol False, Grp 1 datePat, Grp 2 (times is_upper 2 4),
           Grp 3 (plus digit_dot), Grp 4 (plus digit_dot)]"

text \<open>
  The split of the digit run before the first manhole ID into the sequence number
  \<open>no\<close> and the PSR, by the length of the run; \<open>None\<close> is the \<open>null\<close> PSR.
\<close>

definition splitNoPsr :: "string \<Rightarrow> string \<times> string option" where
  "splitNoPsr allDigits =
     (if length allDigits \<le> 3 then (allDigits, None)
      else if length allDigits = 4 then
        (substring allDigits 0 1, Some (substring allDigits 1 4))
      else if length allDigits = 5 then
        (substring allDigits 0 2, Some (substring allDigits 2 5))
      else if length allDigits = 6 then
        (substring allDigits 0 3, Some (substring allDigits 3 6))
      else if length allDigits = 7 then
        (substring allDigits 0 (int (length allDigits) - 4),
         Some (substring_from allDigits (int (length allDigits) - 4)))
      else
        (substring allDigits 0 (int (length allDigits) - 3),
         Some (substring_from allDigits (int (length allDigits) - 3))))"

text \<open>The text before the first manhole ID of a line that has two of them.\<close>

definition beforeMH :: "string \<Rightarrow> string \<Rightarrow> string" where
  "beforeMH line upstream = substring line 0 (indexOf line upstream)"

text \<open>The text after the second manhole ID.\<close>

definition afterMH :: "string \<Rightarrow> string \<Rightarrow> string" where
  "afterMH line downstream =
     substring_from line (indexOf line downstream + int (length downstream))"

text \<open>
  The anchor-based reconstruction of one line (the body of the loop once the line is
  not skipped): the entry that is pushed, if one is. \<open>m0\<close> and \<open>m1\<close> are the first two
  matches of the manhole pattern, \<open>whole m0\<close> is \<open>upstreamMH\<close> and \<open>whole m1\<close> is
  \<open>downstreamMH\<close>; the capture of \<open>digitsBeforeMH\<close> is \<open>allDigits\<close>.
\<close>

definition anchorEntry :: "string \<Rightarrow> entry option" where
  "anchorEntry line =
     (case js_matchAll mhPattern line of
        m0 # m1 # others \<Rightarrow>
          (case js_match digitsPattern (beforeMH line (whole m0)) of
             None \<Rightarrow> None
           | Some digitsBeforeMH \<Rightarrow>
               (case (js_match restPattern (afterMH line (whole m1)),
                      snd (splitNoPsr (grp digitsBeforeMH 1))) of
                  (Some restMatch, Some p) \<Rightarrow>
                    if p \<noteq> [] then
                      Some \<lparr> no = fst (splitNoPsr (grp digitsBeforeMH 1)), psr = p,
                             upstreamMH = whole m0, downstreamMH = whole m1,
                             date = grp restMatch 1, material = grp restMatch 2,
                             totalLength = parseFloat (grp restMatch 3),
                             lengthSurveyed = parseFloat (grp restMatch 4) \<rparr>
                    else None
                | _ \<Rightarrow> None))
      | _ \<Rightarrow> None)"

text \<open>
  One turn of the loop over the lines; the state is \<open>psrData\<close> and \<open>matchCount\<close>.
\<close>

definition lineStep :: "entry list \<times> nat \<Rightarrow> string \<Rightarrow> entry list \<times> nat" where
  "lineStep st line =
     (if skipped line then st
      else (case anchorEntry line of
              Some e \<Rightarrow> (fst st @ [e], snd st + 1)
            | None \<Rightarrow> st))"

text \<open>The entry built from one match of the spaced pattern, and one turn of its loop.\<close>

definition spacedEntry :: "rmatch \<Rightarrow> entry" where
  "spacedEntry mt =
     \<lparr> no = grp mt 1, psr = grp mt 2, upstreamMH = grp mt 3, downstreamMH = grp mt 4,
       date = grp mt 5, material = grp mt 6,
       totalLength = parseFloat (grp mt 7), lengthSurveyed = parseFloat (grp mt 8) \<rparr>"

definition spacedStep :: "entry list \<times> nat \<Rightarrow> rmatch \<Rightarrow> entry list \<times> nat" where
  "spacedStep st mt =
     (let e = spacedEntry mt
      in if psr e \<noteq> [] \<and> upstreamMH e \<noteq> [] \<and> downstreamMH e \<noteq> []
         then (fst st @ [e], snd st + 1)
         else (fst st, snd st + 1))"

text \<open>
  The rows pushed for the region: the loop over its lines, then, only when that loop
  counted no match, the loop over the matches of the spaced pattern in the whole region.
\<close>

definition sectionRows :: "string \<Rightarrow> entry list" where
  "sectionRows section =
     (let st = foldl lineStep ([], 0) (splitOn (CHR 0x0A) section)
      in if snd st = 0
         then fst (foldl spacedStep st (js_matchAll spacedPattern section))
         else fst st)"

text \<open>The deduplication: the key is the three fields joined with \<open>-\<close>.\<close>

definition dedupKey :: "entry \<Rightarrow> string" where
  "dedupKey e = psr e @ ''-'' @ upstreamMH e @ ''-'' @ downstreamMH e"

definition dedupStep :: "entry list \<times> string set \<Rightarrow> entry \<Rightarrow> entry list \<times> string set" where
  "dedupStep st e =
     (if dedupKey e \<notin> snd st then (fst st @ [e], insert (dedupKey e) (snd st)) else st)"

definition dedup :: "entry list \<Rightarrow> entry list" where
  "dedup psrData = fst (foldl dedupStep ([], {}) psrData)"

definition extractSectionProfileData :: "string \<Rightarrow> entry list" where
  "extractSectionProfileData text =
     (case js_match fullSectionPattern text of
        None \<Rightarrow> []
      | Some fullSectionMatch \<Rightarrow> dedup (sectionRows (whole fullSectionMatch)))"

section \<open>The statistics over the Section Profile (\<open>calculateStatistics\<close>)\<close>

text \<open>
  \<open>longestSegment\<close> and \<open>shortestSegment\<close> are \<open>null\<close> (\<open>None\<close>) for an empty list and
  otherwise the two \<open>reduce\<close> calls, which start from the first entry and visit every
  entry, the first one included.
\<close>

definition longestSegment :: "entry list \<Rightarrow> entry option" where
  "longestSegment sectionProfile =
     (case sectionProfile of
        [] \<Rightarrow> None
      | first # others \<Rightarrow>
          Some (foldl (\<lambda>max p. if js_gt (totalLength p) (js_or (totalLength max) (Num 0))
                                  then p else max) first sectionProfile))"

definition shortestSegment :: "entry list \<Rightarrow> entry option" where
  "shortestSegment sectionProfile =
     (case sectionProfile of
        [] \<Rightarrow> None
      | first # others \<Rightarrow>
          Some (foldl (\<lambda>min p. if js_lt (totalLength p) (js_or (totalLength min) PInf)
                                  then p else min) first sectionProfile))"

definition getConditionLabel :: "jsnum \<Rightarrow> string" where
  "getConditionLabel opri =
     (if js_le opri (Num (3 / 2)) then ''Excellent''
      else if js_le opri (Num (5 / 2)) then ''Good''
      else if js_le opri (Num (7 / 2)) then ''Fair''
      else if js_le opri (Num (9 / 2)) then ''Poor''
      else ''Very Poor'')"

section \<open>The inspection report extractor (\<open>extractInspectionReportData\<close>)\<close>

record observation =
  distance :: jsnum
  code :: string
  observation :: string
  counter :: string

text \<open>
  A report object starts empty and gets a property for each pattern that matches;
  a property that was never set is \<open>None\<close>.
\<close>

record report =
  date :: "string option"
  certificateNumber :: "string option"
  psr :: "string option"
  surveyedBy :: "string option"
  preCleaning :: "string option"
  direction :: "string option"
  upstreamMH :: "string option"
  downstreamMH :: "string option"
  pipeShape :: "string option"
  pipeSize :: "string option"
  pipeMaterial :: "string option"
  sewerUse :: "string option"
  sewerCategory :: "string option"
  jointsPassed :: "jsnum option"
  jointsFailed :: "jsnum option"
  totalGallonsUsed :: "jsnum option"
  totalLength :: "jsnum option"
  lengthSurveyed :: "jsnum option"
  qsr :: "jsnum option"
  qmr :: "jsnum option"
  qor :: "jsnum option"
  spr :: "jsnum option"
  mpr :: "jsnum option"
  opr :: "jsnum option"
  spri :: "jsnum option"
  mpri :: "jsnum option"
  opri :: "jsnum option"
  observations :: "observation list option"
  street :: "string option"
  city :: "string option"

text \<open>A label, optional white space and colon, then the captured value: \<^verbatim>\<open>/Label:\s*(...)/\<close>.\<close>

definition labelled :: "string \<Rightarrow> re \<Rightarrow> re" where
  "labelled label v = seqs [Lit label, star is_space, Grp 1 v]"

text \<open>
  A captured value that runs lazily up to one of the following labels or the end of the
  input: \<^verbatim>\<open>/Label:\s*(cls+?)(?:\s+Next1|\s+Next2|$)/\<close>.
\<close>

fun stops :: "string list \<Rightarrow> re" where
  "stops [] = Eol False"
| "stops (l # ls) = Alt (Seq (plus is_space) (Lit l)) (stops ls)"

definition labelledUpTo :: "string \<Rightarrow> (char \<Rightarrow> bool) \<Rightarrow> string list \<Rightarrow> re" where
  "labelledUpTo label cls nexts =
     seqs [Lit label, star is_space, Grp 1 (plus_lazy cls), stops nexts]"

text \<open>The four PSR patterns, in the order they are tried.\<close>

definition psrPattern1 :: re where
  "psrPattern1 =
     seqs [LitI ''Pipe'', plus is_space, LitI ''Segment'', plus is_space, LitI ''Ref'',
           opt (is_chr (CHR ''.'')), opt (is_chr (CHR '':'')), star is_space,
           Grp 1 (plus is_digit)]"

definition psrPattern2 :: re where
  "psrPattern2 =
     seqs [LitI ''PSR'', star is_space, opt (is_chr (CHR '':'')), star is_space,
           Grp 1 (plus is_digit)]"

definition psrPattern3 :: re where
  "psrPattern3 =
     seqs [Lit ''Ref'', opt (is_chr (CHR ''.'')), opt (is_chr (CHR '':'')), star is_space,
           Grp 1 (plus is_digit)]"

definition psrPattern4 :: re where
  "psrPattern4 =
     seqs [LitI ''Segment'', plus is_space, Alt (LitI ''Reference'') (LitI ''Ref''),
           opt (is_chr (CHR ''.'')), opt (is_chr (CHR '':'')), star is_space,
           Grp 1 (plus is_digit)]"

text \<open>\<open>a || b\<close> on two match results.\<close>

definition orElse :: "'a option \<Rightarrow> 'a option \<Rightarrow> 'a option" where
  "orElse a b = (case a of Some x \<Rightarrow> Some x | None \<Rightarrow> b)"

text \<open>
  A rating in the labelled layout: \<^verbatim>\<open>/LABEL\s*:?\s*[\r\n]+\s*(cls+)/i\<close>; the second pattern
  for QOR, \<^verbatim>\<open>/QOR[\r\n]+\s*(\d+)/i\<close>; the concatenated layout,
  \<^verbatim>\<open>/QSRQMR[^\n]*[\r\n]+\s*([\d.]+)/i\<close>; and its tokens, \<^verbatim>\<open>/\d\.\d/g\<close>.
\<close>

definition ratingPattern :: "string \<Rightarrow> (char \<Rightarrow> bool) \<Rightarrow> re" where
  "ratingPattern label cls =
     seqs [LitI label, star is_space, opt (is_chr (CHR '':'')), star is_space,
           plus cr_lf, star is_space, Grp 1 (plus cls)]"

definition qorPattern2 :: re where
  "qorPattern2 = seqs [LitI ''QOR'', plus cr_lf, star is_space, Grp 1 (plus is_digit)]"

definition concatPattern :: re where
  "concatPattern =
     seqs [LitI ''QSRQMR'', star not_nl, plus cr_lf, star is_space, Grp 1 (plus digit_dot)]"

definition decimalPattern :: re where
  "decimalPattern = seqs [one is_digit, Lit ''.'', one is_digit]"

text \<open>
  \<^verbatim>\<open>/([\d.]+)\s+([A-Z]+)\s+([^\n]+?)\s+(\d{2}:\d{2}:\d{2})/g\<close>
\<close>

definition obsPattern :: re where
  "obsPattern =
     seqs [Grp 1 (plus digit_dot), plus is_space, Grp 2 (plus is_upper), plus is_space,
           Grp 3 (plus_lazy not_nl), plus is_space,
           Grp 4 (seqs [times is_digit 2 2, Lit '':'', times is_digit 2 2, Lit '':'',
                        times is_digit 2 2])]"

text \<open>
  The ratings window of a report that has a following section: its own text, a line
  feed, and the start of the next section.
\<close>

definition ratingsWindow :: "string \<Rightarrow> string \<Rightarrow> string" where
  "ratingsWindow section nextSection =
     (let sectionPicturesIdx = js_search (LitI ''Section Pictures'') nextSection;
          pageMarkerIdx = js_search (LitI ''// Page:'') nextSection;
          endIdx = (if sectionPicturesIdx \<noteq> - 1 \<and> sectionPicturesIdx < 2000
                    then sectionPicturesIdx
                    else if pageMarkerIdx \<noteq> - 1 \<and> pageMarkerIdx < 2000
                    then pageMarkerIdx + 50
                    else 2000)
      in section @ nl @ substring nextSection 0 (min endIdx (int (length nextSection))))"

text \<open>
  The concatenated layout, tried only when the labelled QSR pattern found nothing:
  the two four-character pieces and the tokens, when there are at least six tokens.
\<close>

definition concatValues :: "string \<Rightarrow> (string \<times> string \<times> string list) option" where
  "concatValues ratingsSection =
     (case js_match concatPattern ratingsSection of
        None \<Rightarrow> None
      | Some concatMatch \<Rightarrow>
          (let numbersLine = grp concatMatch 1;
               qsrText = substring numbersLine 0 4;
               qmrText = substring numbersLine 4 8;
               decimalPart = substring_from numbersLine 8;
               decimals = map whole (js_matchAll decimalPattern decimalPart)
           in if qsrText \<noteq> [] \<and> qmrText \<noteq> [] \<and> 6 \<le> length decimals
              then Some (qsrText, qmrText, decimals) else None))"

definition usedConcatenatedFormat :: "string \<Rightarrow> bool" where
  "usedConcatenatedFormat ratingsSection =
     (js_match (ratingPattern ''QSR'' is_digit) ratingsSection = None \<and>
      concatValues ratingsSection \<noteq> None)"

text \<open>
  One rating property: from the token \<open>k\<close> of the concatenated layout when that layout
  was used, and otherwise from the labelled pattern when it matched.
\<close>

definition rating :: "string \<Rightarrow> string \<Rightarrow> nat \<Rightarrow> jsnum option" where
  "rating ratingsSection label k =
     (if usedConcatenatedFormat ratingsSection then
        (case concatValues ratingsSection of
           Some (qsrText, qmrText, decimals) \<Rightarrow> Some (parseFloat (decimals ! k))
         | None \<Rightarrow> None)
      else map_option (\<lambda>mt. parseFloat (grp mt 1))
             (js_match (ratingPattern label digit_dot) ratingsSection))"

definition text_of :: "rmatch \<Rightarrow> string" where
  "text_of mt = grp mt 1"

definition trimmed :: "rmatch \<Rightarrow> string" where
  "trimmed mt = trim (grp mt 1)"

definition parsedInt :: "rmatch \<Rightarrow> jsnum" where
  "parsedInt mt = parseInt (grp mt 1)"

definition parsedFloat :: "rmatch \<Rightarrow> jsnum" where
  "parsedFloat mt = parseFloat (grp mt 1)"

definition toObservation :: "rmatch \<Rightarrow> observation" where
  "toObservation mt =
     \<lparr> distance = parseFloat (grp mt 1), code = grp mt 2,
       observation = trim (grp mt 3), counter = grp mt 4 \<rparr>"

text \<open>
  The report object built from one section and its ratings window. Each property is
  written once, so the object is given here property by property.
\<close>

definition extractReport :: "string \<Rightarrow> string \<Rightarrow> report" where
  "extractReport section ratingsSection =
     \<lparr> date = map_option text_of
                (orElse (js_match (labelled ''Date:'' datePat) section)
                        (js_match (seqs [Grp 1 datePat, plus is_space, Lit ''Cole Swenson'']) section)),
       certificateNumber = map_option text_of
                (js_match (labelled ''Certificate Number:'' (plus word_dash)) section),
       psr = map_option text_of
                (orElse (js_match psrPattern1 section)
                  (orElse (js_match psrPattern2 section)
                    (orElse (js_match psrPattern3 section) (js_match psrPattern4 section)))),
       surveyedBy = map_option trimmed (js_match (labelled ''Surveyed By:'' (plus not_nl)) section),
       preCleaning = map_option trimmed
                (js_match (labelledUpTo ''Pre-cleaning:'' not_nl [''Direction:'']) section),
       direction = map_option trimmed
                (js_match (labelledUpTo ''Direction:'' not_nl [''Pipe Joint Length:'']) section),
       upstreamMH = map_option text_of (js_match (labelled ''Upstream MH:'' (plus word_dash)) section),
       downstreamMH = map_option text_of
                (js_match (labelled ''Downstream MH:'' (plus word_dash)) section),
       pipeShape = map_option text_of (js_match (labelled ''Pipe shape:'' (plus is_word)) section),
       pipeSize = map_option trimmed
                (js_match (labelledUpTo ''Pipe size:'' digit_space_quote
                             [''Sewer Category:'', ''Purpose:'']) section),
       pipeMaterial = map_option trimmed
                (js_match (labelledUpTo ''Pipe material:'' not_nl
                             [''Purpose:'', ''Lining Method:'']) section),
       sewerUse = map_option trimmed
                (js_match (labelledUpTo ''Sewer Use:'' not_nl [''Total gallons'']) section),
       sewerCategory = map_option text_of
                (js_match (labelled ''Sewer Category:'' (plus is_word)) section),
       jointsPassed = map_option parsedInt
                (js_match (labelled ''Joints passed:'' (plus is_digit)) section),
       jointsFailed = map_option parsedInt
                (js_match (labelled ''Joints failed:'' (plus is_digit)) section),
       totalGallonsUsed = map_option parsedFloat
                (js_match (labelled ''Total gallons used:'' (plus digit_dot)) section),
       totalLength = map_option parsedFloat
                (js_match (seqs [labelled ''Total Length:'' (plus digit_dot), star is_space,
                                 one quote]) section),
       lengthSurveyed = map_option parsedFloat
                (js_match (seqs [labelled ''Length Surveyed:'' (plus digit_dot), star is_space,
                                 one quote]) section),
       qsr = (if usedConcatenatedFormat ratingsSection then
                (case concatValues ratingsSection of
                   Some (qsrText, qmrText, decimals) \<Rightarrow> Some (parseInt qsrText) | None \<Rightarrow> None)
              else map_option parsedInt (js_match (ratingPattern ''QSR'' is_digit) ratingsSection)),
       qmr = (if usedConcatenatedFormat ratingsSection then
                (case concatValues ratingsSection of
                   Some (qsrText, qmrText, decimals) \<Rightarrow> Some (parseInt qmrText) | None \<Rightarrow> None)
              else map_option parsedInt (js_match (ratingPattern ''QMR'' is_digit) ratingsSection)),
       qor = map_option parsedInt
               (if js_match (ratingPattern ''QSR'' is_digit) ratingsSection = None
                then js_match qorPattern2 ratingsSection
                else js_match (ratingPattern ''QOR'' is_digit) ratingsSection),
       spr = rating ratingsSection ''SPR'' 0,
       mpr = rating ratingsSection ''MPR'' 1,
       opr = rating ratingsSection ''OPR'' 5,
       spri = rating ratingsSection ''SPRI'' 2,
       mpri = rating ratingsSection ''MPRI'' 3,
       opri = rating ratingsSection ''OPRI'' 4,
       observations =
         (let observations = map toObservation (js_matchAll obsPattern section)
          in if observations \<noteq> [] then Some observations else None),
       street = map_option trimmed (js_match (labelled ''Street:'' (plus not_nl)) section),
       city = map_option trimmed (js_match (labelled ''City:'' (plus not_nl)) section) \<rparr>"

text \<open>\<open>Object.keys(report).length > 0\<close>: some property was set.\<close>

definition hasKeys :: "report \<Rightarrow> bool" where
  "hasKeys r =
     (date r \<noteq> None \<or> certificateNumber r \<noteq> None \<or> psr r \<noteq> None \<or> surveyedBy r \<noteq> None \<or>
      preCleaning r \<noteq> None \<or> direction r \<noteq> None \<or> upstreamMH r \<noteq> None \<or>
      downstreamMH r \<noteq> None \<or> pipeShape r \<noteq> None \<or> pipeSize r \<noteq> None \<or>
      pipeMaterial r \<noteq> None \<or> sewerUse r \<noteq> None \<or> sewerCategory r \<noteq> None \<or>
      jointsPassed r \<noteq> None \<or> jointsFailed r \<noteq> None \<or> totalGallonsUsed r \<noteq> None \<or>
      totalLength r \<noteq> None \<or> lengthSurveyed r \<noteq> None \<or> qsr r \<noteq> None \<or> qmr r \<noteq> None \<or>
      qor r \<noteq> None \<or> spr r \<noteq> None \<or> mpr r \<noteq> None \<or> opr r \<noteq> None \<or> spri r \<noteq> None \<or>
      mpri r \<noteq> None \<or> opri r \<noteq> None \<or> observations r \<noteq> None \<or> street r \<noteq> None \<or>
      city r \<noteq> None)"

text \<open>
  The loop over the sections after the first piece of the split: each section is read
  with the window that reaches into the section after it, when there is one.
\<close>

fun reportsOf :: "string list \<Rightarrow> report list" where
  "reportsOf [] = []"
| "reportsOf [section] =
     (let report = extractReport section section
      in if hasKeys report then [report] else [])"
| "reportsOf (section # nextSection # others) =
     (let report = extractReport section (ratingsWindow section nextSection)
      in (if hasKeys report then [report] else []) @ reportsOf (nextSection # others))"

definition extractInspectionReportData :: "string \<Rightarrow> report list" where
  "extractInspectionReportData text =
     (case js_split (LitI ''Inspection report'') text of
        [] \<Rightarrow> []
      | first # reportSections \<Rightarrow> reportsOf reportSections)"

section \<open>Parsing a document and cross-referencing (\<open>parsePDF\<close>)\<close>

text \<open>
  The body of the \<open>forEach\<close> over the reports. A report without a truthy \<open>psr\<close> that has
  both manhole IDs takes the \<open>psr\<close> of the first entry with the same manhole IDs and,
  when the report has a date, the same date. After that a report without a truthy
  \<open>pipeMaterial\<close> that has a \<open>psr\<close> takes the material of the first entry with that \<open>psr\<close>,
  when that material is not empty.
\<close>

definition backfillPsr :: "entry list \<Rightarrow> report \<Rightarrow> report" where
  "backfillPsr psrData report =
     (if \<not> truthy_str (psr report) \<and> truthy_str (upstreamMH report) \<and>
         truthy_str (downstreamMH report) then
        (case find (\<lambda>p. Some (entry.upstreamMH p) = upstreamMH report \<and>
                         Some (entry.downstreamMH p) = downstreamMH report \<and>
                         (\<not> truthy_str (date report) \<or> Some (entry.date p) = date report))
                psrData of
           Some matchingProfile \<Rightarrow> report\<lparr>psr := Some (entry.psr matchingProfile)\<rparr>
         | None \<Rightarrow> report)
      else report)"

definition backfillMaterial :: "entry list \<Rightarrow> report \<Rightarrow> report" where
  "backfillMaterial psrData report =
     (if \<not> truthy_str (pipeMaterial report) \<and> truthy_str (psr report) then
        (case find (\<lambda>p. Some (entry.psr p) = psr report) psrData of
           Some matchingProfile \<Rightarrow>
             if material matchingProfile \<noteq> []
             then report\<lparr>pipeMaterial := Some (material matchingProfile)\<rparr>
             else report
         | None \<Rightarrow> report)
      else report)"

definition crossReference :: "entry list \<Rightarrow> report list \<Rightarrow> report list" where
  "crossReference psrData inspectionReports =
     map (\<lambda>report. backfillMaterial psrData (backfillPsr psrData report)) inspectionReports"

text \<open>
  What the library call \<open>pdf(dataBuffer)\<close> gives: the text and the page count, or an
  exception with its message. The result of \<open>parsePDF\<close> is the object with
  \<open>success: true\<close> or the one with \<open>success: false\<close> and the message.
\<close>

datatype pdf_outcome = PdfData string nat | PdfError string

record metadata =
  totalPages :: nat
  totalPSREntries :: nat
  totalInspectionReports :: nat
  totalObservations :: nat

record parsed =
  rawText :: string
  sectionProfile :: "entry list"
  inspectionReports :: "report list"
  metadata :: metadata

datatype result = Success parsed | Failure string

definition countObservations :: "report list \<Rightarrow> nat" where
  "countObservations rs =
     foldl (\<lambda>sum r. sum + (case observations r of Some os \<Rightarrow> length os | None \<Rightarrow> 0)) 0 rs"

definition parsePDF :: "pdf_outcome \<Rightarrow> result" where
  "parsePDF outcome =
     (case outcome of
        PdfError message \<Rightarrow> Failure message
      | PdfData text numpages \<Rightarrow>
          (let psrData = extractSectionProfileData text;
               reports = crossReference psrData (extractInspectionReportData text)
           in Success \<lparr> rawText = text, sectionProfile = psrData, inspectionReports = reports,
                        metadata = \<lparr> totalPages = numpages,
                                     totalPSREntries = length psrData,
                                     totalInspectionReports = length reports,
                                     totalObservations = countObservations reports \<rparr> \<rparr>))"

text \<open>
  The list of condition labels of the statistics: one triple for each report whose
  \<open>opri\<close> is set.
\<close>

definition opriScores :: "report list \<Rightarrow> (string option \<times> jsnum \<times> string) list" where
  "opriScores rs =
     List.map_filter
       (\<lambda>r. case opri r of Some v \<Rightarrow> Some (psr r, v, getConditionLabel v) | None \<Rightarrow> None) rs"

section \<open>The position-aware variant (\<open>parsePDFWithPositioning\<close>)\<close>

text \<open>
  \<^verbatim>\<open>/Section Profile[\s\S]*?(?=\n\n\n|\nInspection report|$)/i\<close> and the spaced pattern of
  this variant, which is applied to one line and has no flags:
  \<^verbatim>\<open>/^\s*(\d+)\s+(\d+)\s+([\d\-A-Z]+)\s+([\d\-A-Z]+)\s+(\d{1,2}\/\d{1,2}\/\d{4})\s+([A-Z]+)\s+([\d.]+)\s+([\d.]+)/\<close>
\<close>

definition sectionPatternP :: re where
  "sectionPatternP =
     seqs [LitI ''Section Profile'', star_lazy any_char,
           Ahead (Alt (LitI (nl @ nl @ nl)) (Alt (LitI (nl @ ''Inspection report'')) (Eol False)))]"

definition spacedPatternP :: re where
  "spacedPatternP =
     seqs [Bol False, star is_space, Grp 1 (plus is_digit), plus is_space,
           Grp 2 (plus is_digit), plus is_space,
           Grp 3 (plus digit_dash_upper), plus is_space,
           Grp 4 (plus digit_dash_upper), plus is_space,
           Grp 5 datePat, plus is_space,
           Grp 6 (plus is_upper), plus is_space,
           Grp 7 (plus digit_dot), plus is_space,
           Grp 8 (plus digit_dot)]"

definition skippedP :: "string \<Rightarrow> bool" where
  "skippedP line =
     (trim line = [] \<or> js_includes line ''No.'' \<or> js_includes line ''PSR'' \<or>
      js_includes line ''Upstream'' \<or> js_includes line ''Circular'' \<or>
      js_includes line ''Total Length'' \<or> js_includes line ''Surveyed'')"

text \<open>The split of this variant; \<open>None\<close> is its \<open>continue\<close> for a run of fewer than four digits.\<close>

definition splitNoPsrP :: "string \<Rightarrow> (string \<times> string) option" where
  "splitNoPsrP allDigits =
     (if length allDigits = 4 then
        Some (substring allDigits 0 1, substring_from allDigits 1)
      else if length allDigits = 5 then
        Some (substring allDigits 0 2, substring_from allDigits 2)
      else if length allDigits = 6 then
        Some (substring allDigits 0 3, substring_from allDigits 3)
      else if 7 \<le> length allDigits then
        Some (substring allDigits 0 (int (length allDigits) - 4),
              substring_from allDigits (int (length allDigits) - 4))
      else None)"

definition anchorEntryP :: "string \<Rightarrow> entry option" where
  "anchorEntryP line =
     (case js_matchAll mhPattern line of
        m0 # m1 # others \<Rightarrow>
          (case js_match digitsPattern (trim (beforeMH line (whole m0))) of
             None \<Rightarrow> None
           | Some digitsMatch \<Rightarrow>
               (case splitNoPsrP (grp digitsMatch 1) of
                  None \<Rightarrow> None
                | Some (n, p) \<Rightarrow>
                    (case js_match restPattern (afterMH line (whole m1)) of
                       Some restMatch \<Rightarrow>
                         Some \<lparr> entry.no = n, psr = p,
                                upstreamMH = whole m0, downstreamMH = whole m1,
                                date = grp restMatch 1, material = grp restMatch 2,
                                totalLength = parseFloat (grp restMatch 3),
                                lengthSurveyed = parseFloat (grp restMatch 4) \<rparr>
                     | None \<Rightarrow> None)))
      | _ \<Rightarrow> None)"

text \<open>One line of this variant: the spaced pattern first, the anchors when it fails.\<close>

definition lineEntryP :: "string \<Rightarrow> entry option" where
  "lineEntryP line =
     (if skippedP line then None
      else (case js_match spacedPatternP line of
              Some spacedMatch \<Rightarrow> Some (spacedEntry spacedMatch)
            | None \<Rightarrow> anchorEntryP line))"

definition extractSectionProfileFromText :: "string \<Rightarrow> entry list" where
  "extractSectionProfileFromText text =
     (case js_match sectionPatternP text of
        None \<Rightarrow> []
      | Some sectionMatch \<Rightarrow>
          List.map_filter lineEntryP (splitOn (CHR 0x0A) (whole sectionMatch)))"

text \<open>
  The report object of this variant: fewer properties, every rating from its labelled
  pattern, the date and the PSR from fewer patterns.
\<close>

definition labelledRating :: "string \<Rightarrow> string \<Rightarrow> jsnum option" where
  "labelledRating ratingsSection label =
     map_option parsedFloat (js_match (ratingPattern label digit_dot) ratingsSection)"

definition extractReportP :: "string \<Rightarrow> string \<Rightarrow> report" where
  "extractReportP section ratingsSection =
     \<lparr> date = map_option text_of (js_match (labelled ''Date:'' datePat) section),
       certificateNumber = map_option text_of
                (js_match (labelled ''Certificate Number:'' (plus word_dash)) section),
       psr = map_option text_of
                (orElse (js_match psrPattern1 section)
                  (orElse (js_match psrPattern2 section) (js_match psrPattern3 section))),
       surveyedBy = map_option trimmed (js_match (labelled ''Surveyed By:'' (plus not_nl)) section),
       preCleaning = None,
       direction = None,
       upstreamMH = map_option text_of (js_match (labelled ''Upstream MH:'' (plus word_dash)) section),
       downstreamMH = map_option text_of
                (js_match (labelled ''Downstream MH:'' (plus word_dash)) section),
       pipeShape = map_option text_of (js_match (labelled ''Pipe shape:'' (plus is_word)) section),
       pipeSize = map_option trimmed
                (js_match (labelledUpTo ''Pipe size:'' digit_space_quote
                             [''Sewer Category:'', ''Purpose:'']) section),
       pipeMaterial = map_option trimmed
                (js_match (labelledUpTo ''Pipe material:'' not_nl
                             [''Purpose:'', ''Lining Method:'']) section),
       sewerUse = None,
       sewerCategory = None,
       jointsPassed = None,
       jointsFailed = None,
       totalGallonsUsed = None,
       totalLength = map_option parsedFloat
                (js_match (seqs [labelled ''Total Length:'' (plus digit_dot), star is_space,
                                 one quote]) section),
       lengthSurveyed = None,
       qsr = map_option parsedInt (js_match (ratingPattern ''QSR'' is_digit) ratingsSection),
       qmr = map_option parsedInt (js_match (ratingPattern ''QMR'' is_digit) ratingsSection),
       qor = map_option parsedInt (js_match (ratingPattern ''QOR'' is_digit) ratingsSection),
       spr = labelledRating ratingsSection ''SPR'',
       mpr = labelledRating ratingsSection ''MPR'',
       opr = labelledRating ratingsSection ''OPR'',
       spri = labelledRating ratingsSection ''SPRI'',
       mpri = labelledRating ratingsSection ''MPRI'',
       opri = labelledRating ratingsSection ''OPRI'',
       observations =
         (let observations = map toObservation (js_matchAll obsPattern section)
          in if observations \<noteq> [] then Some observations else None),
       street = map_option trimmed (js_match (labelled ''Street:'' (plus not_nl)) section),
       city = map_option trimmed (js_match (labelled ''City:'' (plus not_nl)) section) \<rparr>"

fun reportsOfP :: "string list \<Rightarrow> report list" where
  "reportsOfP [] = []"
| "reportsOfP [section] =
     (let report = extractReportP section section
      in if hasKeys report then [report] else [])"
| "reportsOfP (section # nextSection # others) =
     (let report = extractReportP section (ratingsWindow section nextSection)
      in (if hasKeys report then [report] else []) @ reportsOfP (nextSection # others))"

definition extractInspectionReportsFromText :: "string \<Rightarrow> report list" where
  "extractInspectionReportsFromText text =
     (case js_split (LitI ''Inspection report'') text of
        [] \<Rightarrow> []
      | first # reportSections \<Rightarrow> reportsOfP reportSections)"

text \<open>
  The handler of the parsed document from the point where \<open>rawText\<close> has been rebuilt
  from the glyph positions; that reconstruction works on coordinates and is not
  modelled, so \<open>rawText\<close> (here \<open>text\<close>) and the page count are the arguments. \<open>Inl\<close> is the rejection
  of the promise with the message of the error.
\<close>

definition parsePDFWithPositioning :: "string \<Rightarrow> nat \<Rightarrow> string + parsed" where
  "parsePDFWithPositioning text numPages =
     (if length text = 0 then Inl ''No text extracted from PDF - pdf2json failed''
      else
        (let profile = extractSectionProfileFromText text;
             reports = extractInspectionReportsFromText text
         in Inr \<lparr> rawText = text, sectionProfile = profile, inspectionReports = reports,
                  metadata = \<lparr> totalPages = numPages,
                               totalPSREntries = length profile,
                               totalInspectionReports = length reports,
                               totalObservations = countObservations reports \<rparr> \<rparr>))"

section \<open>The extraction order as the specification words it\<close>

text \<open>The composite key of an entry, as the specification names it.\<close>

definition compositeKey :: "entry \<Rightarrow> string \<times> string \<times> string" where
  "compositeKey e = (entry.psr e, entry.upstreamMH e, entry.downstreamMH e)"

text \<open>
  For comparison with \<open>sectionRows\<close>: each line that is not skipped is first matched
  against the spaced pattern, and only when that fails is it rebuilt from its anchors.
\<close>

definition specLineEntry :: "string \<Rightarrow> entry option" where
  "specLineEntry line =
     (case js_match spacedPattern line of
        Some mt \<Rightarrow> Some (spacedEntry mt)
      | None \<Rightarrow> anchorEntry line)"

definition specRows :: "string \<Rightarrow> entry list" where
  "specRows section =
     List.map_filter specLineEntry (filter (\<lambda>line. \<not> skipped line) (splitOn (CHR 0x0A) section))"

text \<open>
  The match between a report and an entry, as the specification words it: the report
  has both manhole IDs and they equal those of the entry, and the date of the report,
  when it has one, equals the date of the entry. A report has a property when it is set
  and not empty.
\<close>

definition specMatch :: "report \<Rightarrow> entry \<Rightarrow> bool" where
  "specMatch r p =
     (truthy_str (upstreamMH r) \<and> truthy_str (downstreamMH r) \<and>
      upstreamMH r = Some (entry.upstreamMH p) \<and>
      downstreamMH r = Some (entry.downstreamMH p) \<and>
      (truthy_str (date r) \<longrightarrow> date r = Some (entry.date p)))"

section \<open>Example inputs\<close>

text \<open>A report section whose ratings hold the label \<open>OPRI\<close> and, on the next line, a lone dot.\<close>

definition dotSection :: string where
  "dotSection = nl @ ''OPRI'' @ nl @ ''.''"

text \<open>
  A Section Profile row in the layout with column spacing and a row in the layout where
  the columns run together, the entries the two paths build from them, and a region
  that holds both rows.
\<close>

definition spacedLine :: string where
  "spacedLine = ''82 797 138-33-20-028 138-33-20-027 11/20/2024 VCP 61.20 61.20''"

definition smashedLine :: string where
  "smashedLine = ''1407138-33-20-028138-33-20-02711/20/2024VCP61.2061.20''"

definition spacedRow :: entry where
  "spacedRow =
     \<lparr> entry.no = ''82'', psr = ''797'', upstreamMH = ''138-33-20-028'',
       downstreamMH = ''138-33-20-027'', date = ''11/20/2024'', material = ''VCP'',
       totalLength = toDouble (306 / 5), lengthSurveyed = toDouble (306 / 5) \<rparr>"

definition smashedRow :: entry where
  "smashedRow =
     \<lparr> entry.no = ''1'', psr = ''407'', upstreamMH = ''138-33-20-028'',
       downstreamMH = ''138-33-20-027'', date = ''11/20/2024'', material = ''VCP'',
       totalLength = toDouble (612061 / 10000), lengthSurveyed = Num 0 \<rparr>"

definition mixedProfile :: string where
  "mixedProfile = ''Section Profile'' @ nl @ spacedLine @ nl @ smashedLine"

text \<open>
  Three spaced rows with the PSR 5. The manhole IDs of the first row are \<open>1-2\<close> and
  \<open>3\<close>, those of the second and third row are \<open>1\<close> and \<open>2-3\<close>.
\<close>

definition collidingLine1 :: string where
  "collidingLine1 = ''1 5 1-2 3 1/1/2024 VCP 1.0 1.0''"

definition collidingLine2 :: string where
  "collidingLine2 = ''2 5 1 2-3 1/1/2024 VCP 2.0 2.0''"

definition collidingLine3 :: string where
  "collidingLine3 = ''3 5 1 2-3 1/1/2024 VCP 3.0 3.0''"

definition collidingProfile :: string where
  "collidingProfile =
     ''Section Profile'' @ nl @ collidingLine1 @ nl @ collidingLine2 @ nl @ collidingLine3"

definition collidingRow :: "string \<Rightarrow> string \<Rightarrow> string \<Rightarrow> rat \<Rightarrow> entry" where
  "collidingRow n up down len =
     \<lparr> entry.no = n, psr = ''5'', upstreamMH = up, downstreamMH = down,
       date = ''1/1/2024'', material = ''VCP'', totalLength = Num len,
       lengthSurveyed = Num len \<rparr>"

text \<open>A row in the run-together layout whose digit run before the first manhole ID is \<open>82\<close>.\<close>

definition shortRunLine :: string where
  "shortRunLine = ''82138-33-20-028138-33-20-02711/20/2024VCP61.2061.20''"

text \<open>
  A report object with no property, and the report of the segment of \<open>spacedRow\<close>:
  its manhole IDs and its date, and no PSR.
\<close>

definition emptyReport :: report where
  "emptyReport =
     \<lparr> date = None, certificateNumber = None, psr = None, surveyedBy = None,
       preCleaning = None, direction = None, upstreamMH = None, downstreamMH = None,
       pipeShape = None, pipeSize = None, pipeMaterial = None, sewerUse = None,
       sewerCategory = None, jointsPassed = None, jointsFailed = None,
       totalGallonsUsed = None, totalLength = None, lengthSurveyed = None,
       qsr = None, qmr = None, qor = None, spr = None, mpr = None, opr = None,
       spri = None, mpri = None, opri = None, observations = None,
       street = None, city = None \<rparr>"

definition exampleReport :: report where
  "exampleReport =
     emptyReport\<lparr> date := Some ''11/20/2024'', upstreamMH := Some ''138-33-20-028'',
                  downstreamMH := Some ''138-33-20-027'' \<rparr>"

text \<open>A ratings window in the concatenated layout: the line of labels and the line of values.\<close>

definition concatWindow :: string where
  "concatWindow = ''QSRQMRSPRMPROPRSPRIMPRIOPRI'' @ nl @ ''110031001.03.01.03.02.04.0''"

text \<open>
  A ratings window in the concatenated layout whose line of values does not begin with
  eight digits.
\<close>

definition dottedWindow :: string where
  "dottedWindow = ''QSRQMR'' @ nl @ ''1.02.03.04.05.06.07.08.09.0''"

text \<open>
  A report section with a PSR and with nothing between the label \<open>Pipe material:\<close> and
  the label \<open>Purpose:\<close>.
\<close>

definition emptyMaterialSection :: string where
  "emptyMaterialSection =
     nl @ ''PSR: 797'' @ nl @ ''Pipe material:  Purpose: Sanitary'' @ nl"

section \<open>Evaluation on concrete input\<close>

text \<open>
  The equations that unfold the model on a concrete text. They are used with the
  simplifier, piece by piece, and without splitting conditionals.
\<close>

named_theorems ev \<open>defining equations used to evaluate the model\<close>

declare js_gt_def [ev] js_le_def [ev] js_or_def [ev] is_space_def [ev] is_digit_def [ev]
  is_upper_def [ev] is_lower_def [ev] is_word_def [ev] is_lt_def [ev] upper_def [ev] nl_def [ev]
  trim_def [ev] indexOf_def [ev] substring_def [ev] substring_from_def [ev] digit_val_def [ev]
  nat_of_digits_def [ev] parseInt_def [ev] parseFloat_def [ev] whole_def [ev] grp_def [ev]
  exec_at_def [ev] js_match_def [ev] js_test_def [ev] js_search_def [ev] js_matchAll_def [ev]
  js_split_def [ev] any_char_def [ev] is_chr_def [ev] digit_dot_def [ev] digit_dash_def [ev]
  digit_dash_upper_def [ev] word_dash_def [ev] not_nl_def [ev] cr_lf_def [ev]
  digit_space_quote_def [ev] quote_def [ev] one_def [ev] opt_def [ev] star_def [ev] plus_def [ev]
  star_lazy_def [ev] plus_lazy_def [ev] times_def [ev] datePat_def [ev] fullSectionPattern_def [ev]
  spacedPattern_def [ev] hasMHPattern_def [ev] hasDate_def [ev] hasHeaderText_def [ev]
  skipped_def [ev] mhPattern_def [ev] digitsPattern_def [ev] restPattern_def [ev]
  splitNoPsr_def [ev] beforeMH_def [ev] afterMH_def [ev] spacedEntry_def [ev] dedupKey_def [ev]
  labelled_def [ev] labelledUpTo_def [ev] psrPattern1_def [ev] psrPattern2_def [ev]
  psrPattern3_def [ev] psrPattern4_def [ev] orElse_def [ev] ratingPattern_def [ev]
  qorPattern2_def [ev] concatPattern_def [ev] decimalPattern_def [ev] obsPattern_def [ev]
  text_of_def [ev] trimmed_def [ev] parsedInt_def [ev] parsedFloat_def [ev] Let_def [ev] m.simps [ev]

section \<open>The Number value\<close>

lemma bits_upper: "n < 2 ^ k \<Longrightarrow> bits n \<le> k"
proof (induction n arbitrary: k rule: bits.induct)
  case (1 n)
  show ?case
  proof (cases "n = 0")
    case True
    then show ?thesis by (simp add: bits.simps)
  next
    case False
    with 1(2) obtain j where k: "k = Suc j" by (cases k) auto
    with 1(2) have "n div 2 < 2 ^ j" by auto
    from 1(1)[OF False this] False k show ?thesis by (subst bits.simps) simp
  qed
qed

lemma bits_pos: "0 < n \<Longrightarrow> 0 < bits n"
  by (subst bits.simps) simp

lemma roundHalfEven_int: "roundHalfEven (of_int z) = z"
  by (simp add: roundHalfEven_def)

text \<open>A natural number below \<open>2^53\<close> is a double: its Number value is the number itself.\<close>

lemma toDouble_nat:
  assumes "n < 2 ^ 53"
  shows "toDouble (of_nat n) = Num (of_nat n)"
proof (cases "n = 0")
  case True
  then show ?thesis by (simp add: toDouble_def)
next
  case False
  then have pos: "0 < n" by simp
  define s where "s = 53 - bits n"
  from bits_upper[OF assms] bits_pos[OF pos] have b: "bits n \<le> 53" "0 < bits n" by simp_all
  have q1: "(1::rat) \<le> of_nat n" using pos by simp
  have il: "ilog2 (of_nat n) = int (bits n) - 1" using q1 by (simp add: ilog2_def)
  have e: "max (ilog2 (of_nat n) - 52) (- 1074) = - int s" using b by (simp add: il s_def)
  have p: "pow2 (- int s) = 1 / 2 ^ s" by (simp add: pow2_def)
  have "rat_of_nat n / (1 / 2 ^ s) = of_int (int (n * 2 ^ s))" by simp
  then have r: "roundHalfEven (rat_of_nat n / (1 / 2 ^ s)) = int (n * 2 ^ s)"
    by (simp only: roundHalfEven_int)
  have lt: "\<not> pow2 1024 \<le> rat_of_nat n"
  proof -
    have "rat_of_nat n < of_nat (2 ^ 53)" using assms by (simp only: of_nat_less_iff)
    also have "\<dots> \<le> pow2 1024" by (simp add: pow2_def)
    finally show ?thesis by simp
  qed
  have v: "of_int (int (n * 2 ^ s)) * (1 / 2 ^ s) = rat_of_nat n" by simp
  show ?thesis
    unfolding toDouble_def Let_def e p r v using False lt by simp
qed

lemma toDouble_numeral:
  "numeral k < (2::nat) ^ 53 \<Longrightarrow> toDouble (numeral k) = Num (numeral k)"
  using toDouble_nat[of "numeral k"] by simp

lemma toDouble_0_1: "toDouble 0 = Num 0" "toDouble 1 = Num 1"
  using toDouble_nat[of 0] toDouble_nat[of 1] by simp_all

declare toDouble_numeral [ev] toDouble_0_1 [ev]

text \<open>
  Rounding at work: the doubles of 0.1, 61.2 and 61.2061, the tie at \<open>2^53 + 1\<close>, which
  goes to the even significand, and the overflow.
\<close>

lemma floor_rat_numeral: "\<lfloor>numeral a / numeral b :: rat\<rfloor> = numeral a div numeral b"
  using floor_divide_of_int_eq[of "numeral a" "numeral b", where ?'a = rat] by simp

lemma ceiling_rat_numeral: "\<lceil>numeral a / numeral b :: rat\<rceil> = - (- numeral a div numeral b)"
  using ceiling_divide_eq_div[of "numeral a" "numeral b", where ?'a = rat] by simp

lemmas toDouble_ev = toDouble_def ilog2_def pow2_def roundHalfEven_def Let_def bits.simps
  floor_rat_numeral ceiling_rat_numeral

lemma toDouble_examples:
  "toDouble (1 / 10) = Num (3602879701896397 / 36028797018963968)"
  "toDouble (306 / 5) = Num (4306567143673037 / 70368744177664)"
  "toDouble (612061 / 10000) = Num (8613992786025041 / 140737488355328)"
  "toDouble 9007199254740993 = Num 9007199254740992"
  "toDouble (2 ^ 1024) = PInf"
  by (simp_all add: toDouble_ev split del: if_split)

lemma parse_rounding_examples:
  "parseFloat ''0.1'' = Num (3602879701896397 / 36028797018963968)"
  "parseFloat ''61.20'' = Num (4306567143673037 / 70368744177664)"
  "parseInt ''9007199254740993'' = Num 9007199254740992"
  "parseInt ''42'' = Num 42"
  by (simp_all add: ev toDouble_examples split del: if_split)

section \<open>The condition label\<close>

text \<open>The properties of a report object, read off its definition.\<close>

lemma opri_extractReport: "opri (extractReport section w) = rating w ''OPRI'' 4"
  by (simp add: extractReport_def)

lemma psr_extractReport:
  "psr (extractReport section w) =
     map_option text_of
       (orElse (js_match psrPattern1 section)
         (orElse (js_match psrPattern2 section)
           (orElse (js_match psrPattern3 section) (js_match psrPattern4 section))))"
  by (simp add: extractReport_def)

lemma getConditionLabel_Num:
  "getConditionLabel (Num v) =
     (if v \<le> 3 / 2 then ''Excellent'' else if v \<le> 5 / 2 then ''Good''
      else if v \<le> 7 / 2 then ''Fair'' else if v \<le> 9 / 2 then ''Poor'' else ''Very Poor'')"
  by (simp add: getConditionLabel_def js_le_def not_less)

text \<open>
  C3, as the claim states it, fails at one value. A report whose ratings window holds
  the label \<open>OPRI\<close> followed by a line with a lone dot gets the overall index
  \<open>parseFloat(''.'')\<close>, which is NaN; the statistics give it the label \<open>Very Poor\<close>,
  although NaN is not greater than 4.5.
\<close>

theorem getConditionLabel_NaN_counterexample:
  "opriScores (extractInspectionReportData (''Inspection report'' @ dotSection))
     = [(None, NaN, ''Very Poor'')] \<and>
   getConditionLabel NaN = ''Very Poor'' \<and> \<not> js_gt NaN (Num (9 / 2))"
proof -
  have sp: "js_split (LitI ''Inspection report'') (''Inspection report'' @ dotSection)
              = [[], dotSection]"
    by (simp add: dotSection_def ev split del: if_split)
  have o: "opri (extractReport dotSection dotSection) = Some NaN"
    unfolding opri_extractReport
    by (simp add: dotSection_def rating_def usedConcatenatedFormat_def concatValues_def ev
          split del: if_split)
  have p: "psr (extractReport dotSection dotSection) = None"
    unfolding psr_extractReport by (simp add: dotSection_def ev split del: if_split)
  have k: "hasKeys (extractReport dotSection dotSection)"
    by (simp add: hasKeys_def o)
  have l: "getConditionLabel NaN = ''Very Poor''"
    by (simp add: getConditionLabel_def js_le_def)
  have "opriScores (extractInspectionReportData (''Inspection report'' @ dotSection))
          = opriScores [extractReport dotSection dotSection]"
    unfolding extractInspectionReportData_def sp list.case reportsOf.simps Let_def using k by simp
  also have "\<dots> = [(None, NaN, ''Very Poor'')]"
    by (simp add: opriScores_def List.map_filter_simps o p l)
  finally show ?thesis
    by (simp add: l js_gt_def)
qed

text \<open>
  C3 (amended): for every overall index \<open>v\<close> that is a number, finite or infinite, the
  label is \<open>Excellent\<close> iff \<open>v \<le> 1.5\<close>, \<open>Good\<close> iff \<open>1.5 < v \<le> 2.5\<close>, \<open>Fair\<close> iff
  \<open>2.5 < v \<le> 3.5\<close>, \<open>Poor\<close> iff \<open>3.5 < v \<le> 4.5\<close> and \<open>Very Poor\<close> iff \<open>v > 4.5\<close>, each band
  including its upper threshold; so 1.5 is \<open>Excellent\<close>, 1.6 and 2.5 are \<open>Good\<close>, 2.6 is
  \<open>Fair\<close>, 4.5 is \<open>Poor\<close> and 4.6 is \<open>Very Poor\<close>. What the label of NaN should be is
  left open.
\<close>

theorem getConditionLabel_bands:
  "(getConditionLabel (Num v) = ''Excellent'' \<longleftrightarrow> v \<le> 3 / 2) \<and>
   (getConditionLabel (Num v) = ''Good'' \<longleftrightarrow> 3 / 2 < v \<and> v \<le> 5 / 2) \<and>
   (getConditionLabel (Num v) = ''Fair'' \<longleftrightarrow> 5 / 2 < v \<and> v \<le> 7 / 2) \<and>
   (getConditionLabel (Num v) = ''Poor'' \<longleftrightarrow> 7 / 2 < v \<and> v \<le> 9 / 2) \<and>
   (getConditionLabel (Num v) = ''Very Poor'' \<longleftrightarrow> 9 / 2 < v) \<and>
   getConditionLabel NInf = ''Excellent'' \<and> getConditionLabel PInf = ''Very Poor'' \<and>
   getConditionLabel (Num (15 / 10)) = ''Excellent'' \<and>
   getConditionLabel (Num (16 / 10)) = ''Good'' \<and>
   getConditionLabel (Num (25 / 10)) = ''Good'' \<and>
   getConditionLabel (Num (26 / 10)) = ''Fair'' \<and>
   getConditionLabel (Num (45 / 10)) = ''Poor'' \<and>
   getConditionLabel (Num (46 / 10)) = ''Very Poor''"
proof -
  have inf: "getConditionLabel NInf = ''Excellent''" "getConditionLabel PInf = ''Very Poor''"
    by (simp_all add: getConditionLabel_def js_le_def)
  show ?thesis
    unfolding getConditionLabel_Num by (simp add: inf)
qed

section \<open>The longest and the shortest segment\<close>

text \<open>
  C7 holds for the longest segment and fails for the shortest one. In the \<open>reduce\<close>
  for the shortest segment the length of the current minimum is read as
  \<open>min.totalLength || Infinity\<close>, so a minimum of length 0 counts as infinitely long and
  every later entry replaces it. For the two entries below, of lengths 0 and 5, the
  shortest segment is the second entry, though the first one has the minimal length.
\<close>

theorem shortestSegment_zero_length:
  "shortestSegment
     [\<lparr> entry.no = ''1'', psr = ''407'', upstreamMH = ''138-33-20-028'',
        downstreamMH = ''138-33-20-027'', date = ''11/20/2024'', material = ''VCP'',
        totalLength = Num 0, lengthSurveyed = Num 0 \<rparr>,
      \<lparr> entry.no = ''2'', psr = ''408'', upstreamMH = ''138-33-20-027'',
        downstreamMH = ''138-33-20-026'', date = ''11/20/2024'', material = ''VCP'',
        totalLength = Num 5, lengthSurveyed = Num 5 \<rparr>]
   = Some \<lparr> entry.no = ''2'', psr = ''408'', upstreamMH = ''138-33-20-027'',
        downstreamMH = ''138-33-20-026'', date = ''11/20/2024'', material = ''VCP'',
        totalLength = Num 5, lengthSurveyed = Num 5 \<rparr> \<and>
   js_lt (Num 0) (Num 5)"
  by (simp add: shortestSegment_def js_or_def)

section \<open>The matcher on the patterns of the anchor path\<close>

text \<open>The equations of the matcher, one by one, for proofs about arbitrary input.\<close>

lemma m_Nil: "m [] i pre rest cs = Some (i, cs)"
  by (rule m.simps)

lemma m_Seq: "m (Run (Seq a b) # ts) i pre rest cs = m (Run a # Run b # ts) i pre rest cs"
  by (rule m.simps)

lemma m_Grp: "m (Run (Grp g r) # ts) i pre rest cs = m (Run r # Close g i # ts) i pre rest cs"
  by (rule m.simps)

lemma m_Close:
  "m (Close g i0 # ts) i pre rest cs =
     m ts i pre rest ((g, rev (take (nat (i - i0)) pre)) # cs)"
  by (rule m.simps)

lemma m_Bol:
  "m (Run (Bol ml) # ts) i pre rest cs =
     (if i = 0 \<or> (ml \<and> (case pre of [] \<Rightarrow> False | c # p \<Rightarrow> is_lt c))
      then m ts i pre rest cs else None)"
  by (rule m.simps)

lemma m_Eol:
  "m (Run (Eol ml) # ts) i pre rest cs =
     (if rest = [] \<or> (ml \<and> (case rest of [] \<Rightarrow> False | c # p \<Rightarrow> is_lt c))
      then m ts i pre rest cs else None)"
  by (rule m.simps)

lemma m_Rep:
  "m (Run (Rep c lo hi g) # ts) i pre rest cs =
     (let n = length (takeWhile c rest);
          n' = (case hi of None \<Rightarrow> n | Some h \<Rightarrow> min h n)
      in if n' < lo then None
         else if g then
           m (Back (n' - lo) # ts) (i + int n') (rev (take n' rest) @ pre) (drop n' rest) cs
         else
           m (Fwd (n' - lo) # ts) (i + int lo) (rev (take lo rest) @ pre) (drop lo rest) cs)"
  by (rule m.simps)

lemma m_Back:
  "m (Back n # ts) i pre rest cs =
     (case m ts i pre rest cs of
        Some r \<Rightarrow> Some r
      | None \<Rightarrow>
          (case pre of
             [] \<Rightarrow> None
           | c # pre' \<Rightarrow>
               if 0 < n then m (Back (n - 1) # ts) (i - 1) pre' (c # rest) cs else None))"
  by (rule m.simps)

text \<open>A pattern that begins with \<open>^\<close> (without the flag \<open>m\<close>) matches at index 0 only.\<close>

lemma search_Bol_pos: "0 < i \<Longrightarrow> search (Seq (Bol False) r) i pre s = None"
  by (induction s arbitrary: i pre) (simp_all add: exec_at_def m_Seq m_Bol)

lemma close_eol:
  "m [Close g i0, Run (Eol False)] i pre rest cs =
     (if rest = [] then Some (i, (g, rev (take (nat (i - i0)) pre)) # cs) else None)"
  by (simp add: m_Close m_Eol m_Nil)

text \<open>
  A greedy class followed by \<open>$\<close>: giving characters back never helps, since \<open>$\<close> needs
  the end of the input.
\<close>

lemma back_eol:
  "rest \<noteq> [] \<Longrightarrow> m (Back n # [Close g i0, Run (Eol False)]) i pre rest cs = None"
proof (induction n arbitrary: i pre rest)
  case 0
  then show ?case by (subst m_Back) (simp add: close_eol split: list.splits)
next
  case (Suc n)
  show ?case
  proof (cases pre)
    case Nil
    with Suc.prems show ?thesis by (subst m_Back) (simp add: close_eol)
  next
    case (Cons c pre')
    have "m (Back n # [Close g i0, Run (Eol False)]) (i - 1) pre' (c # rest) cs = None"
      by (rule Suc.IH) simp
    with Suc.prems Cons show ?thesis by (subst m_Back) (simp add: close_eol)
  qed
qed

text \<open>
  \<^verbatim>\<open>/^(\d+)$/\<close> matches exactly the non-empty strings of digits, and its capture is the
  whole string.
\<close>

lemma digitsPattern_match:
  assumes "js_match digitsPattern s = Some mt"
  shows "grp mt 1 = s \<and> s \<noteq> [] \<and> (\<forall>c\<in>set s. is_digit c)"
proof -
  let ?n = "length (takeWhile is_digit s)"
  let ?ts = "[Close 1 0, Run (Eol False)]"
  from assms have ex: "exec_at digitsPattern 0 [] s = Some mt"
    by (cases s) (simp_all add: js_match_def digitsPattern_def search_Bol_pos split: option.splits)
  then obtain e cs where r: "m [Run digitsPattern] 0 [] s [] = Some (e, cs)"
    and mt: "mt = (0, take (nat e) s, cs)"
    by (auto simp: exec_at_def split: option.splits)
  from r have n1: "1 \<le> ?n"
    and b: "m (Back (?n - 1) # ?ts) (int ?n) (rev (take ?n s)) (drop ?n s) [] = Some (e, cs)"
    by (simp_all add: digitsPattern_def plus_def m_Seq m_Bol m_Grp m_Rep Let_def Suc_le_eq
          split: if_splits)
  have le: "?n \<le> length s" by (rule length_takeWhile_le)
  have d: "drop ?n s = []"
  proof (rule ccontr)
    assume "drop ?n s \<noteq> []"
    from back_eol[OF this] b show False by simp
  qed
  with le have n: "?n = length s" by simp
  from b d n have "Some (e, cs) = Some (int (length s), [(1, s)])"
    by (subst (asm) m_Back) (simp add: close_eol)
  then have e: "e = int (length s)" and cs: "cs = [(1, s)]" by simp_all
  from n have "takeWhile is_digit s = s"
    by (metis takeWhile_eq_take take_all le_refl)
  then have "\<forall>c\<in>set s. is_digit c"
    by (metis set_takeWhileD)
  moreover from n1 n have "s \<noteq> []" by auto
  moreover from mt cs have "grp mt 1 = s" by (simp add: grp_def)
  ultimately show ?thesis by simp
qed

subsection \<open>\<open>indexOf\<close> and the text before the first manhole ID\<close>

lemma indexOf_from_found:
  "indexOf_from i s sub \<noteq> - 1 \<Longrightarrow>
   \<exists>j. indexOf_from i s sub = int (i + j) \<and> j \<le> length s \<and> take (length sub) (drop j s) = sub"
proof (induction s arbitrary: i)
  case Nil
  then show ?case by (auto split: if_splits)
next
  case (Cons c cs)
  show ?case
  proof (cases "take (length sub) (c # cs) = sub")
    case True
    then show ?thesis by (intro exI[of _ 0]) simp
  next
    case False
    with Cons.prems have "indexOf_from (Suc i) cs sub \<noteq> - 1" by simp
    from Cons.IH[OF this] obtain j where
      "indexOf_from (Suc i) cs sub = int (Suc i + j)" "j \<le> length cs"
      "take (length sub) (drop j cs) = sub" by blast
    with False show ?thesis by (intro exI[of _ "Suc j"]) simp
  qed
qed

lemma substring_take_drop:
  "0 \<le> a \<Longrightarrow> a \<le> b \<Longrightarrow> b \<le> int (length s) \<Longrightarrow>
   substring s a b = take (nat (b - a)) (drop (nat a) s)"
  by (simp add: substring_def Let_def min_def max_def)

lemma substring_from_drop:
  "0 \<le> a \<Longrightarrow> a \<le> int (length s) \<Longrightarrow> substring_from s a = drop (nat a) s"
  by (simp add: substring_from_def substring_take_drop)

lemma substring_0_neg: "substring s 0 (- 1) = []"
  by (simp add: substring_def)

lemma substring_0_nat: "j \<le> length s \<Longrightarrow> substring s 0 (int j) = take j s"
  by (simp add: substring_def min_def max_def)

text \<open>A non-empty text before the manhole ID is followed, in the line, by that ID.\<close>

lemma beforeMH_prefix:
  assumes "beforeMH line up \<noteq> []"
  shows "\<exists>rest. line = beforeMH line up @ up @ rest"
proof -
  from assms have "indexOf_from 0 line up \<noteq> - 1"
    by (auto simp: beforeMH_def indexOf_def substring_0_neg)
  from indexOf_from_found[OF this] obtain j where
    j: "indexOf_from 0 line up = int j" "j \<le> length line" "take (length up) (drop j line) = up"
    by auto
  then have b: "beforeMH line up = take j line"
    by (simp add: beforeMH_def indexOf_def substring_0_nat)
  have "line = take j line @ drop j line" by simp
  also have "drop j line = take (length up) (drop j line) @ drop (length up) (drop j line)"
    by (simp only: append_take_drop_id)
  finally show ?thesis using j(3) b by metis
qed

subsection \<open>What an entry of the anchor path is made of\<close>

lemma anchorEntry_SomeD:
  assumes "anchorEntry line = Some e"
  shows "\<exists>m0 m1 ms dm rm.
           js_matchAll mhPattern line = m0 # m1 # ms \<and>
           js_match digitsPattern (beforeMH line (whole m0)) = Some dm \<and>
           js_match restPattern (afterMH line (whole m1)) = Some rm \<and>
           splitNoPsr (grp dm 1) = (no e, Some (entry.psr e)) \<and> entry.psr e \<noteq> [] \<and>
           entry.upstreamMH e = whole m0 \<and> entry.downstreamMH e = whole m1 \<and>
           entry.date e = grp rm 1 \<and> material e = grp rm 2"
  using assms unfolding anchorEntry_def
  by (auto split: list.splits option.splits if_splits prod.splits simp: prod_eq_iff)

text \<open>
  C1: on the anchor path the digit run before the first manhole ID is split by its
  length alone: up to three digits are a sequence number without PSR; four split 1/3,
  five 2/3, six 3/3, seven (len-4)/4 and more than seven (len-3)/3. So 1407 gives
  sequence 1 and PSR 407, 82797 gives 82 and 797, 191642 gives 191 and 642. For a line
  from which the anchor path builds an entry, the text before the first manhole ID is
  a run of digits that the line begins with, directly followed by that ID, and the
  sequence number and PSR of the entry are the split of that run.
\<close>

theorem splitNoPsr_by_length:
  "(length d \<le> 3 \<longrightarrow> splitNoPsr d = (d, None)) \<and>
   (length d = 4 \<longrightarrow> splitNoPsr d = (take 1 d, Some (drop 1 d))) \<and>
   (length d = 5 \<longrightarrow> splitNoPsr d = (take 2 d, Some (drop 2 d))) \<and>
   (length d = 6 \<longrightarrow> splitNoPsr d = (take 3 d, Some (drop 3 d))) \<and>
   (length d = 7 \<longrightarrow> splitNoPsr d = (take (length d - 4) d, Some (drop (length d - 4) d))) \<and>
   (7 < length d \<longrightarrow> splitNoPsr d = (take (length d - 3) d, Some (drop (length d - 3) d))) \<and>
   splitNoPsr ''1407'' = (''1'', Some ''407'') \<and>
   splitNoPsr ''82797'' = (''82'', Some ''797'') \<and>
   splitNoPsr ''191642'' = (''191'', Some ''642'') \<and>
   (anchorEntry line = Some e \<longrightarrow>
      (\<forall>c\<in>set (beforeMH line (entry.upstreamMH e)). is_digit c) \<and>
      (\<exists>rest. line = beforeMH line (entry.upstreamMH e) @ entry.upstreamMH e @ rest) \<and>
      splitNoPsr (beforeMH line (entry.upstreamMH e)) = (no e, Some (entry.psr e)))"
proof -
  have c3: "length d \<le> 3 \<Longrightarrow> splitNoPsr d = (d, None)"
    by (simp add: splitNoPsr_def)
  have c4: "length d = 4 \<Longrightarrow> splitNoPsr d = (take 1 d, Some (drop 1 d))"
    by (simp add: splitNoPsr_def substring_take_drop)
  have c5: "length d = 5 \<Longrightarrow> splitNoPsr d = (take 2 d, Some (drop 2 d))"
    by (simp add: splitNoPsr_def substring_take_drop)
  have c6: "length d = 6 \<Longrightarrow> splitNoPsr d = (take 3 d, Some (drop 3 d))"
    by (simp add: splitNoPsr_def substring_take_drop)
  have c7: "length d = 7 \<Longrightarrow>
              splitNoPsr d = (take (length d - 4) d, Some (drop (length d - 4) d))"
    by (simp add: splitNoPsr_def substring_take_drop substring_from_drop)
  have c8: "7 < length d \<Longrightarrow>
              splitNoPsr d = (take (length d - 3) d, Some (drop (length d - 3) d))"
    by (simp add: splitNoPsr_def substring_take_drop substring_from_drop nat_diff_distrib)
  have ex: "splitNoPsr ''1407'' = (''1'', Some ''407'')"
    "splitNoPsr ''82797'' = (''82'', Some ''797'')"
    "splitNoPsr ''191642'' = (''191'', Some ''642'')"
    by (simp_all add: splitNoPsr_def substring_def substring_from_def)
  have line: "(\<forall>c\<in>set (beforeMH line (entry.upstreamMH e)). is_digit c) \<and>
      (\<exists>rest. line = beforeMH line (entry.upstreamMH e) @ entry.upstreamMH e @ rest) \<and>
      splitNoPsr (beforeMH line (entry.upstreamMH e)) = (no e, Some (entry.psr e))"
    if "anchorEntry line = Some e"
  proof -
    from anchorEntry_SomeD[OF that] obtain m0 dm where
      dm: "js_match digitsPattern (beforeMH line (whole m0)) = Some dm"
      and sp: "splitNoPsr (grp dm 1) = (no e, Some (entry.psr e))"
      and up: "entry.upstreamMH e = whole m0" by blast
    from digitsPattern_match[OF dm] have
      g: "grp dm 1 = beforeMH line (whole m0)" and ne: "beforeMH line (whole m0) \<noteq> []"
      and dg: "\<forall>c\<in>set (beforeMH line (whole m0)). is_digit c" by simp_all
    from beforeMH_prefix[OF ne] g sp dg up show ?thesis by simp
  qed
  from c3 c4 c5 c6 c7 c8 ex line show ?thesis by blast
qed

section \<open>The loops of the Section Profile extractor\<close>

lemma lineStep_None: "anchorEntry line = None \<Longrightarrow> lineStep st line = st"
  by (simp add: lineStep_def)

lemma lineStep_Some:
  "\<not> skipped line \<Longrightarrow> anchorEntry line = Some e \<Longrightarrow>
   lineStep st line = (fst st @ [e], snd st + 1)"
  by (simp add: lineStep_def)

text \<open>
  The loop over the lines collects the anchor entries of the lines that are not
  skipped, in order, and counts them.
\<close>

lemma foldl_lineStep:
  "foldl lineStep st ls =
     (fst st @ List.map_filter anchorEntry (filter (\<lambda>line. \<not> skipped line) ls),
      snd st + length (List.map_filter anchorEntry (filter (\<lambda>line. \<not> skipped line) ls)))"
proof (induction ls arbitrary: st)
  case Nil
  show ?case by (simp add: List.map_filter_simps)
next
  case (Cons l ls)
  show ?case
  proof (cases "skipped l")
    case True
    then have "lineStep st l = st" by (simp add: lineStep_def)
    then show ?thesis using True by (simp add: Cons.IH)
  next
    case False
    show ?thesis
    proof (cases "anchorEntry l")
      case None
      then have "lineStep st l = st" by (simp add: lineStep_def)
      then show ?thesis using False None by (simp add: Cons.IH List.map_filter_simps)
    next
      case (Some e)
      with False have "lineStep st l = (fst st @ [e], snd st + 1)"
        by (simp add: lineStep_def)
      then show ?thesis using False Some by (simp add: Cons.IH List.map_filter_simps)
    qed
  qed
qed

text \<open>The loop over the spaced matches keeps the entries whose three key fields are not empty.\<close>

lemma foldl_spacedStep:
  "foldl spacedStep st ms =
     (fst st @ filter (\<lambda>e. entry.psr e \<noteq> [] \<and> entry.upstreamMH e \<noteq> [] \<and> entry.downstreamMH e \<noteq> [])
                 (map spacedEntry ms),
      snd st + length ms)"
proof (induction ms arbitrary: st)
  case Nil
  show ?case by simp
next
  case (Cons mt ms)
  let ?keep = "\<lambda>e. entry.psr e \<noteq> [] \<and> entry.upstreamMH e \<noteq> [] \<and> entry.downstreamMH e \<noteq> []"
  show ?case
  proof (cases "?keep (spacedEntry mt)")
    case True
    then have "spacedStep st mt = (fst st @ [spacedEntry mt], snd st + 1)"
      by (simp add: spacedStep_def Let_def)
    then show ?thesis using True by (simp add: Cons.IH)
  next
    case False
    then have "spacedStep st mt = (fst st, snd st + 1)"
      by (auto simp add: spacedStep_def Let_def)
    then show ?thesis using False by (simp add: Cons.IH)
  qed
qed

lemma sectionRows_eq:
  "sectionRows section =
     (let anchored = List.map_filter anchorEntry
                       (filter (\<lambda>line. \<not> skipped line) (splitOn (CHR 0x0A) section))
      in if anchored \<noteq> [] then anchored
         else filter (\<lambda>e. entry.psr e \<noteq> [] \<and> entry.upstreamMH e \<noteq> [] \<and> entry.downstreamMH e \<noteq> [])
                (map spacedEntry (js_matchAll spacedPattern section)))"
  by (simp add: sectionRows_def foldl_lineStep foldl_spacedStep Let_def)

lemma map_filter_SomeD: "e \<in> set (List.map_filter f xs) \<Longrightarrow> \<exists>x\<in>set xs. f x = Some e"
  by (auto simp: List.map_filter_def)

subsection \<open>The deduplication\<close>

lemma foldl_dedupStep_subset:
  "set (fst (foldl dedupStep st xs)) \<subseteq> set (fst st) \<union> set xs"
proof (induction xs arbitrary: st)
  case Nil
  show ?case by simp
next
  case (Cons x xs)
  have "set (fst (foldl dedupStep (dedupStep st x) xs)) \<subseteq> set (fst (dedupStep st x)) \<union> set xs"
    by (rule Cons.IH)
  also have "set (fst (dedupStep st x)) \<subseteq> set (fst st) \<union> {x}"
    by (auto simp add: dedupStep_def)
  finally show ?case by auto
qed

lemma dedup_subset: "set (dedup xs) \<subseteq> set xs"
  using foldl_dedupStep_subset[of "([], {})" xs] by (simp add: dedup_def)

lemma foldl_dedupStep_distinct:
  "distinct (map dedupKey (fst st)) \<Longrightarrow> dedupKey ` set (fst st) \<subseteq> snd st \<Longrightarrow>
   distinct (map dedupKey (fst (foldl dedupStep st xs)))"
proof (induction xs arbitrary: st)
  case Nil
  then show ?case by simp
next
  case (Cons x xs)
  have "distinct (map dedupKey (fst (dedupStep st x)))"
    using Cons.prems by (auto simp: dedupStep_def)
  moreover have "dedupKey ` set (fst (dedupStep st x)) \<subseteq> snd (dedupStep st x)"
    using Cons.prems by (auto simp: dedupStep_def)
  ultimately show ?case using Cons.IH[of "dedupStep st x"] by simp
qed

text \<open>
  What holds of the deduplication on every input: no two entries that are kept have the
  same composite key.
\<close>

lemma dedup_keys_distinct: "distinct (map compositeKey (dedup xs))"
proof -
  have d: "distinct (map dedupKey (dedup xs))"
    using foldl_dedupStep_distinct[of "([], {})" xs] by (simp add: dedup_def)
  have k: "dedupKey e = (\<lambda>(p, u, d). p @ ''-'' @ u @ ''-'' @ d) (compositeKey e)" for e
    by (simp add: dedupKey_def compositeKey_def)
  have "map dedupKey (dedup xs) =
          map (\<lambda>(p, u, d). p @ ''-'' @ u @ ''-'' @ d) (map compositeKey (dedup xs))"
    by (simp add: k)
  with d show ?thesis by (metis distinct_map)
qed

lemma extract_keys_distinct: "distinct (map compositeKey (extractSectionProfileData text))"
  by (simp add: extractSectionProfileData_def dedup_keys_distinct split: option.splits)

subsection \<open>The example rows\<close>

lemma lines_mixed:
  "splitOn (CHR 0x0A) mixedProfile = [''Section Profile'', spacedLine, smashedLine]"
  by (simp add: mixedProfile_def spacedLine_def smashedLine_def nl_def)

lemma full_mixed: "js_match fullSectionPattern mixedProfile = Some (0, mixedProfile, [])"
  by (simp add: mixedProfile_def spacedLine_def smashedLine_def ev split del: if_split)

lemma header_anchor: "anchorEntry ''Section Profile'' = None"
  by (simp add: anchorEntry_def ev split del: if_split)

lemma header_spaced: "js_match spacedPattern ''Section Profile'' = None"
  by (simp add: ev split del: if_split)

lemma header_skipped: "\<not> skipped ''Section Profile''"
  by (simp add: ev split del: if_split)

lemma smashed_skipped: "\<not> skipped smashedLine"
  by (simp add: smashedLine_def ev split del: if_split)

lemma spaced_skipped: "\<not> skipped spacedLine"
  by (simp add: spacedLine_def ev split del: if_split)

lemma smashed_mh:
  "js_matchAll mhPattern smashedLine =
     [(4, ''138-33-20-028'', [(1, ''138-33-20-028'')]),
      (17, ''138-33-20-027'', [(1, ''138-33-20-027'')])]"
  by (simp add: smashedLine_def ev split del: if_split)

lemma spaced_mh:
  "js_matchAll mhPattern spacedLine =
     [(7, ''138-33-20-028'', [(1, ''138-33-20-028'')]),
      (21, ''138-33-20-027'', [(1, ''138-33-20-027'')])]"
  by (simp add: spacedLine_def ev split del: if_split)

lemma spaced_sp: "map_option spacedEntry (js_match spacedPattern spacedLine) = Some spacedRow"
  by (simp add: spacedLine_def spacedRow_def ev split del: if_split)

lemma smashed_sp: "js_match spacedPattern smashedLine = None"
  by (simp add: smashedLine_def ev split del: if_split)

lemma smashed_before: "beforeMH smashedLine ''138-33-20-028'' = ''1407''"
  by (simp add: smashedLine_def ev split del: if_split)

lemma smashed_after: "afterMH smashedLine ''138-33-20-027'' = ''11/20/2024VCP61.2061.20''"
  by (simp add: smashedLine_def ev split del: if_split)

lemma digits_1407: "js_match digitsPattern ''1407'' = Some (0, ''1407'', [(1, ''1407'')])"
  by (simp add: ev split del: if_split)

lemma rest_smashed:
  "js_match restPattern ''11/20/2024VCP61.2061.20'' =
     Some (0, ''11/20/2024VCP61.2061.20'',
           [(4, ''0''), (3, ''61.2061.2''), (2, ''VCP''), (1, ''11/20/2024'')])"
  by (simp add: ev split del: if_split)

lemma split_1407: "splitNoPsr ''1407'' = (''1'', Some ''407'')"
  by (simp add: ev split del: if_split)

lemma parseFloat_examples:
  "parseFloat ''61.2061.2'' = toDouble (612061 / 10000)" "parseFloat ''0'' = Num 0"
  by (simp_all add: ev split del: if_split)

lemma smashed_anchor: "anchorEntry smashedLine = Some smashedRow"
  by (simp add: anchorEntry_def smashed_mh whole_def smashed_before smashed_after digits_1407
        rest_smashed grp_def split_1407 parseFloat_examples smashedRow_def)

lemma spaced_before: "beforeMH spacedLine ''138-33-20-028'' = ''82 797 ''"
  by (simp add: spacedLine_def ev split del: if_split)

lemma digits_spaced: "js_match digitsPattern ''82 797 '' = None"
  by (simp add: ev split del: if_split)

lemma spaced_anchor: "anchorEntry spacedLine = None"
  by (simp add: anchorEntry_def spaced_mh whole_def spaced_before digits_spaced)

lemma rows_mixed: "sectionRows mixedProfile = [smashedRow]"
  by (simp add: sectionRows_def lines_mixed lineStep_None[OF header_anchor]
        lineStep_None[OF spaced_anchor] lineStep_Some[OF smashed_skipped smashed_anchor])

lemma dedup_single: "dedup [e] = [e]"
  by (simp add: dedup_def dedupStep_def)

lemma extract_mixed: "extractSectionProfileData mixedProfile = [smashedRow]"
  by (simp add: extractSectionProfileData_def full_mixed whole_def rows_mixed dedup_single)

lemma specRows_mixed: "specRows mixedProfile = [spacedRow, smashedRow]"
proof -
  from spaced_sp obtain mt where mt: "js_match spacedPattern spacedLine = Some mt"
    and e: "spacedEntry mt = spacedRow" by (auto simp: map_option_case split: option.splits)
  have "specLineEntry ''Section Profile'' = None"
    by (simp add: specLineEntry_def header_spaced header_anchor)
  moreover have "specLineEntry spacedLine = Some spacedRow"
    by (simp add: specLineEntry_def mt e)
  moreover have "specLineEntry smashedLine = Some smashedRow"
    by (simp add: specLineEntry_def smashed_sp smashed_anchor)
  ultimately show ?thesis
    by (simp add: specRows_def lines_mixed header_skipped spaced_skipped smashed_skipped
          List.map_filter_simps)
qed

section \<open>The order of the two extraction paths\<close>

text \<open>
  C6, as the claim states it, fails. In the region \<open>mixedProfile\<close> the line
  \<open>spacedLine\<close> is not skipped and the spaced pattern matches it, so by the order of the
  claim the rows would be the spaced row and then the run-together row. The extractor
  runs the anchor path over every line first; that pass builds the run-together row,
  the match count is no longer zero, and the spaced pattern is never tried: the only
  row is the run-together one.
\<close>

theorem extraction_order_counterexample:
  "\<not> skipped spacedLine \<and> js_match spacedPattern spacedLine \<noteq> None \<and>
   specRows mixedProfile = [spacedRow, smashedRow] \<and>
   sectionRows mixedProfile = [smashedRow] \<and>
   extractSectionProfileData mixedProfile = [smashedRow] \<and>
   spacedRow \<noteq> smashedRow"
proof -
  from spaced_sp have "js_match spacedPattern spacedLine \<noteq> None" by auto
  moreover have "spacedRow \<noteq> smashedRow" by (simp add: spacedRow_def smashedRow_def)
  ultimately show ?thesis
    by (simp add: spaced_skipped specRows_mixed rows_mixed extract_mixed)
qed

text \<open>
  C6 (amended): the anchor-based reconstruction is attempted first, on every line of
  the region that is not skipped. The spaced pattern is attempted only when that pass
  built no entry at all, and then it is matched over the text of the whole region, not
  line by line; of its matches those with a non-empty PSR and non-empty manhole IDs
  become entries. The result is deduplicated.
\<close>

theorem extraction_order:
  "extractSectionProfileData text =
     (case js_match fullSectionPattern text of
        None \<Rightarrow> []
      | Some fullSectionMatch \<Rightarrow>
          (let region = whole fullSectionMatch;
               anchored = List.map_filter anchorEntry
                            (filter (\<lambda>line. \<not> skipped line) (splitOn (CHR 0x0A) region))
           in dedup (if anchored \<noteq> [] then anchored
                     else filter (\<lambda>e. entry.psr e \<noteq> [] \<and> entry.upstreamMH e \<noteq> [] \<and>
                                       entry.downstreamMH e \<noteq> [])
                            (map spacedEntry (js_matchAll spacedPattern region)))))"
  by (simp add: extractSectionProfileData_def sectionRows_eq Let_def split: option.splits)

section \<open>Every entry has a PSR\<close>

lemma sectionRows_psr: "e \<in> set (sectionRows section) \<Longrightarrow> entry.psr e \<noteq> []"
proof -
  assume e: "e \<in> set (sectionRows section)"
  let ?anchored = "List.map_filter anchorEntry
                     (filter (\<lambda>line. \<not> skipped line) (splitOn (CHR 0x0A) section))"
  show ?thesis
  proof (cases "?anchored \<noteq> []")
    case True
    with e have "e \<in> set ?anchored" by (simp add: sectionRows_eq Let_def)
    from map_filter_SomeD[OF this] obtain line where "anchorEntry line = Some e" by blast
    from anchorEntry_SomeD[OF this] show ?thesis by blast
  next
    case False
    with e show ?thesis by (simp add: sectionRows_eq Let_def)
  qed
qed

lemma short_run_no_entry:
  assumes "js_matchAll mhPattern line = m0 # m1 # ms"
    and "length (beforeMH line (whole m0)) \<le> 3"
  shows "anchorEntry line = None"
proof (cases "js_match digitsPattern (beforeMH line (whole m0))")
  case None
  with assms(1) show ?thesis by (simp add: anchorEntry_def)
next
  case (Some dm)
  from digitsPattern_match[OF Some] have "grp dm 1 = beforeMH line (whole m0)" by simp
  with assms(2) have "snd (splitNoPsr (grp dm 1)) = None" by (simp add: splitNoPsr_def)
  with assms(1) Some show ?thesis by (simp add: anchorEntry_def split: option.splits)
qed

text \<open>
  C9: every entry the Section Profile extractor returns has a non-empty PSR. A line
  with two manhole IDs whose digit run before the first ID has at most three digits
  gives no entry on the anchor path, and a match of the spaced pattern whose PSR capture
  is empty adds no entry.
\<close>

theorem extract_psr_nonempty:
  "(\<forall>e\<in>set (extractSectionProfileData text). entry.psr e \<noteq> []) \<and>
   (js_matchAll mhPattern line = m0 # m1 # ms \<and> length (beforeMH line (whole m0)) \<le> 3 \<longrightarrow>
      anchorEntry line = None) \<and>
   (grp mt 2 = [] \<longrightarrow> fst (spacedStep st mt) = fst st)"
proof -
  have "entry.psr e \<noteq> []" if "e \<in> set (extractSectionProfileData text)" for e
  proof -
    from that obtain fm where "e \<in> set (dedup (sectionRows (whole fm)))"
      by (auto simp: extractSectionProfileData_def split: option.splits)
    with dedup_subset have "e \<in> set (sectionRows (whole fm))" by blast
    then show ?thesis by (rule sectionRows_psr)
  qed
  moreover have "grp mt 2 = [] \<longrightarrow> fst (spacedStep st mt) = fst st"
    by (simp add: spacedStep_def spacedEntry_def Let_def)
  ultimately show ?thesis using short_run_no_entry by blast
qed

lemma shortRun_mh:
  "js_matchAll mhPattern shortRunLine =
     [(2, ''138-33-20-028'', [(1, ''138-33-20-028'')]),
      (15, ''138-33-20-027'', [(1, ''138-33-20-027'')])]"
  by (simp add: shortRunLine_def ev split del: if_split)

lemma shortRun_before: "beforeMH shortRunLine ''138-33-20-028'' = ''82''"
  by (simp add: shortRunLine_def ev split del: if_split)

theorem extract_psr_nonempty_witness:
  "extractSectionProfileData mixedProfile = [smashedRow] \<and> entry.psr smashedRow = ''407'' \<and>
   length (beforeMH shortRunLine ''138-33-20-028'') \<le> 3 \<and> anchorEntry shortRunLine = None \<and>
   fst (spacedStep ([], 0) (0, [], [])) = []"
proof -
  let ?m0 = "(2::int, ''138-33-20-028'', [(1::nat, ''138-33-20-028'')])"
  let ?m1 = "(15::int, ''138-33-20-027'', [(1::nat, ''138-33-20-027'')])"
  note t = extract_psr_nonempty[of mixedProfile shortRunLine ?m0 ?m1 "[]" "(0, [], [])" "([], 0)"]
  have b: "length (beforeMH shortRunLine (whole ?m0)) \<le> 3"
    by (simp add: whole_def shortRun_before)
  from t have "\<forall>e\<in>set (extractSectionProfileData mixedProfile). entry.psr e \<noteq> []" by blast
  moreover from t shortRun_mh b have "anchorEntry shortRunLine = None" by blast
  moreover from t have "fst (spacedStep ([], 0) (0, [], [])) = fst ([]::entry list, 0::nat)"
    by (simp add: grp_def)
  ultimately show ?thesis
    by (simp add: extract_mixed smashedRow_def shortRun_before)
qed

theorem splitNoPsr_by_length_witness:
  "length ''12'' \<le> 3 \<and> splitNoPsr ''12'' = (''12'', None) \<and>
   length ''1407'' = 4 \<and> splitNoPsr ''1407'' = (''1'', Some ''407'') \<and>
   length ''82797'' = 5 \<and> splitNoPsr ''82797'' = (''82'', Some ''797'') \<and>
   length ''191642'' = 6 \<and> splitNoPsr ''191642'' = (''191'', Some ''642'') \<and>
   length ''1234567'' = 7 \<and> splitNoPsr ''1234567'' = (''123'', Some ''4567'') \<and>
   7 < length ''12345678'' \<and> splitNoPsr ''12345678'' = (''12345'', Some ''678'') \<and>
   anchorEntry smashedLine = Some smashedRow \<and>
   beforeMH smashedLine (entry.upstreamMH smashedRow) = ''1407'' \<and>
   splitNoPsr ''1407'' = (no smashedRow, Some (entry.psr smashedRow))"
proof -
  have a: "splitNoPsr ''12'' = (''12'', None)"
    using splitNoPsr_by_length[of "''12''"] by simp
  have b: "splitNoPsr ''1407'' = (''1'', Some ''407'')"
    using splitNoPsr_by_length[of "''1407''"] by simp
  have c: "splitNoPsr ''82797'' = (''82'', Some ''797'')"
    using splitNoPsr_by_length[of "''82797''"] by simp
  have d: "splitNoPsr ''191642'' = (''191'', Some ''642'')"
    using splitNoPsr_by_length[of "''191642''"] by simp
  have e: "splitNoPsr ''1234567'' = (''123'', Some ''4567'')"
    using splitNoPsr_by_length[of "''1234567''"] by simp
  have f: "splitNoPsr ''12345678'' = (''12345'', Some ''678'')"
    using splitNoPsr_by_length[of "''12345678''"] by simp
  have u: "beforeMH smashedLine (entry.upstreamMH smashedRow) = ''1407''"
    by (simp add: smashedRow_def smashed_before)
  have "splitNoPsr (beforeMH smashedLine (entry.upstreamMH smashedRow))
          = (no smashedRow, Some (entry.psr smashedRow))"
    using splitNoPsr_by_length[of "[]" smashedLine smashedRow] smashed_anchor by blast
  with u have g: "splitNoPsr ''1407'' = (no smashedRow, Some (entry.psr smashedRow))" by simp
  from a b c d e f u show ?thesis
    by (simp add: smashed_anchor g[symmetric])
qed

section \<open>Rows whose joined keys collide\<close>

lemma lines_colliding:
  "splitOn (CHR 0x0A) collidingProfile =
     [''Section Profile'', collidingLine1, collidingLine2, collidingLine3]"
  by (simp add: collidingProfile_def collidingLine1_def collidingLine2_def collidingLine3_def
        nl_def)

lemma full_colliding:
  "js_match fullSectionPattern collidingProfile = Some (0, collidingProfile, [])"
  by (simp add: collidingProfile_def collidingLine1_def collidingLine2_def collidingLine3_def ev
        split del: if_split)

lemma colliding_anchor:
  "anchorEntry collidingLine1 = None" "anchorEntry collidingLine2 = None"
  "anchorEntry collidingLine3 = None"
  by (simp_all add: anchorEntry_def collidingLine1_def collidingLine2_def collidingLine3_def ev
        split del: if_split)

lemma colliding_spaced:
  "map spacedEntry (js_matchAll spacedPattern collidingProfile) =
     [collidingRow ''1'' ''1-2'' ''3'' 1, collidingRow ''2'' ''1'' ''2-3'' 2,
      collidingRow ''3'' ''1'' ''2-3'' 3]"
  by (simp add: collidingProfile_def collidingLine1_def collidingLine2_def collidingLine3_def
        collidingRow_def ev split del: if_split)

lemma rows_colliding:
  "sectionRows collidingProfile =
     [collidingRow ''1'' ''1-2'' ''3'' 1, collidingRow ''2'' ''1'' ''2-3'' 2,
      collidingRow ''3'' ''1'' ''2-3'' 3]"
  by (simp add: sectionRows_def lines_colliding lineStep_None[OF header_anchor]
        lineStep_None[OF colliding_anchor(1)] lineStep_None[OF colliding_anchor(2)]
        lineStep_None[OF colliding_anchor(3)] foldl_spacedStep colliding_spaced)
     (simp add: collidingRow_def)

text \<open>
  C4 fails on the region \<open>collidingProfile\<close>. Its three rows are extracted by the spaced
  pattern. The second and the third row share the composite key \<open>(5, 1, 2-3)\<close>; the key
  of the first row, \<open>(5, 1-2, 3)\<close>, is a different one. The deduplication joins the
  three fields with \<open>-\<close>, which gives \<open>5-1-2-3\<close> for all three rows, so it keeps the
  first row only: the first occurrence of the key \<open>(5, 1, 2-3)\<close> is discarded.
\<close>

theorem dedup_key_collision:
  "sectionRows collidingProfile =
     [collidingRow ''1'' ''1-2'' ''3'' 1, collidingRow ''2'' ''1'' ''2-3'' 2,
      collidingRow ''3'' ''1'' ''2-3'' 3] \<and>
   compositeKey (collidingRow ''2'' ''1'' ''2-3'' 2) = compositeKey (collidingRow ''3'' ''1'' ''2-3'' 3) \<and>
   compositeKey (collidingRow ''1'' ''1-2'' ''3'' 1) \<noteq> compositeKey (collidingRow ''2'' ''1'' ''2-3'' 2) \<and>
   dedupKey (collidingRow ''1'' ''1-2'' ''3'' 1) = dedupKey (collidingRow ''2'' ''1'' ''2-3'' 2) \<and>
   extractSectionProfileData collidingProfile = [collidingRow ''1'' ''1-2'' ''3'' 1]"
proof -
  have "dedup [collidingRow ''1'' ''1-2'' ''3'' 1, collidingRow ''2'' ''1'' ''2-3'' 2,
               collidingRow ''3'' ''1'' ''2-3'' 3] = [collidingRow ''1'' ''1-2'' ''3'' 1]"
    by (simp add: dedup_def dedupStep_def dedupKey_def collidingRow_def)
  then have "extractSectionProfileData collidingProfile = [collidingRow ''1'' ''1-2'' ''3'' 1]"
    by (simp add: extractSectionProfileData_def full_colliding whole_def rows_colliding)
  then show ?thesis
    by (simp add: rows_colliding) (simp add: compositeKey_def dedupKey_def collidingRow_def)
qed

section \<open>Cross-referencing\<close>

lemma backfillMaterial_psr: "psr (backfillMaterial psrData r) = psr r"
  by (simp add: backfillMaterial_def split: option.splits)

text \<open>
  For a report that has both manhole IDs, the test the search uses is the match of the
  specification.
\<close>

lemma find_specMatch:
  assumes "truthy_str (upstreamMH r)" "truthy_str (downstreamMH r)"
  shows "find (\<lambda>p. Some (entry.upstreamMH p) = upstreamMH r \<and>
                   Some (entry.downstreamMH p) = downstreamMH r \<and>
                   (\<not> truthy_str (date r) \<or> Some (entry.date p) = date r)) psrData
         = find (specMatch r) psrData"
  by (rule find_cong) (use assms in \<open>auto simp: specMatch_def\<close>)

lemma find_specMatch_none:
  assumes "\<not> (truthy_str (upstreamMH r) \<and> truthy_str (downstreamMH r))"
  shows "find (specMatch r) psrData = None"
  using assms by (auto simp: find_None_iff specMatch_def)

lemma backfillPsr_eq:
  assumes "\<not> truthy_str (psr r)"
  shows "backfillPsr psrData r =
           (case find (specMatch r) psrData of
              Some p \<Rightarrow> r\<lparr>psr := Some (entry.psr p)\<rparr>
            | None \<Rightarrow> r)"
proof (cases "truthy_str (upstreamMH r) \<and> truthy_str (downstreamMH r)")
  case True
  then have t: "truthy_str (upstreamMH r)" "truthy_str (downstreamMH r)" by simp_all
  have "backfillPsr psrData r =
          (case find (\<lambda>p. Some (entry.upstreamMH p) = upstreamMH r \<and>
                           Some (entry.downstreamMH p) = downstreamMH r \<and>
                           (\<not> truthy_str (date r) \<or> Some (entry.date p) = date r)) psrData of
             Some matchingProfile \<Rightarrow> r\<lparr>psr := Some (entry.psr matchingProfile)\<rparr>
           | None \<Rightarrow> r)"
    unfolding backfillPsr_def using assms t by (simp only: simp_thms if_True)
  then show ?thesis by (simp only: find_specMatch[OF t])
next
  case False
  from find_specMatch_none[OF False] False assms show ?thesis
    by (auto simp: backfillPsr_def)
qed

text \<open>
  C5: after cross-referencing, a report that lacked a PSR and whose manhole IDs (and
  date, when it has one) equal those of some entry has the PSR of the first such entry;
  with no such entry its \<open>psr\<close> stays as it was. The report of \<open>exampleReport\<close>, matched
  against the entry with the manhole IDs 138-33-20-028 and 138-33-20-027, the date
  11/20/2024 and the PSR 797, ends with the PSR 797.
\<close>

theorem crossReference_backfills_psr:
  "(i < length reports \<and> \<not> truthy_str (psr (reports ! i)) \<and>
      find (specMatch (reports ! i)) psrData = Some p \<longrightarrow>
      psr (crossReference psrData reports ! i) = Some (entry.psr p)) \<and>
   (i < length reports \<and> \<not> truthy_str (psr (reports ! i)) \<and>
      find (specMatch (reports ! i)) psrData = None \<longrightarrow>
      psr (crossReference psrData reports ! i) = psr (reports ! i)) \<and>
   psr (crossReference [spacedRow] [exampleReport] ! 0) = Some ''797''"
proof -
  have ex: "psr (backfillPsr [spacedRow] exampleReport) = Some ''797''"
    by (simp add: backfillPsr_def exampleReport_def emptyReport_def spacedRow_def)
  show ?thesis
    by (simp add: crossReference_def backfillMaterial_psr backfillPsr_eq ex)
qed

theorem crossReference_backfills_psr_witness:
  "0 < length [exampleReport] \<and> \<not> truthy_str (psr ([exampleReport] ! 0)) \<and>
   find (specMatch ([exampleReport] ! 0)) [spacedRow] = Some spacedRow \<and>
   psr (crossReference [spacedRow] [exampleReport] ! 0) = Some (entry.psr spacedRow) \<and>
   find (specMatch ([exampleReport] ! 0)) [] = None \<and>
   psr (crossReference [] [exampleReport] ! 0) = psr ([exampleReport] ! 0)"
proof -
  have n: "\<not> truthy_str (psr ([exampleReport] ! 0))"
    by (simp add: exampleReport_def emptyReport_def)
  have f: "find (specMatch ([exampleReport] ! 0)) [spacedRow] = Some spacedRow"
    by (simp add: specMatch_def exampleReport_def emptyReport_def spacedRow_def)
  have g: "find (specMatch ([exampleReport] ! 0)) [] = None" by simp
  from crossReference_backfills_psr[of 0 "[exampleReport]" "[spacedRow]" spacedRow] n f
  have a: "psr (crossReference [spacedRow] [exampleReport] ! 0) = Some (entry.psr spacedRow)"
    by simp
  from crossReference_backfills_psr[of 0 "[exampleReport]" "[]"] n g
  have b: "psr (crossReference [] [exampleReport] ! 0) = psr ([exampleReport] ! 0)"
    by simp
  from n f g a b show ?thesis by simp
qed

subsection \<open>What cross-referencing leaves alone\<close>

lemma backfillPsr_frame:
  "(backfillPsr psrData r)\<lparr>psr := psr r\<rparr> = r \<and>
   (truthy_str (psr r) \<longrightarrow> backfillPsr psrData r = r)"
  by (simp add: backfillPsr_def split: option.splits)

lemma backfillMaterial_frame:
  "(backfillMaterial psrData r)\<lparr>pipeMaterial := pipeMaterial r\<rparr> = r \<and>
   (truthy_str (pipeMaterial r) \<longrightarrow> backfillMaterial psrData r = r)"
  by (simp add: backfillMaterial_def split: option.splits)

lemma backfillPsr_material: "pipeMaterial (backfillPsr psrData r) = pipeMaterial r"
  by (simp add: backfillPsr_def split: option.splits)

lemma backfill_frame:
  "(backfillMaterial psrData (backfillPsr psrData r))
     \<lparr>psr := psr r, pipeMaterial := pipeMaterial r\<rparr> = r"
proof -
  let ?r1 = "backfillPsr psrData r"
  have r1: "?r1 = r \<or> (\<exists>p. ?r1 = r\<lparr>psr := Some p\<rparr>)"
    unfolding backfillPsr_def by (cases "find (\<lambda>p. Some (entry.upstreamMH p) = upstreamMH r \<and>
                         Some (entry.downstreamMH p) = downstreamMH r \<and>
                         (\<not> truthy_str (date r) \<or> Some (entry.date p) = date r)) psrData")
      (simp_all, blast)
  have r2: "backfillMaterial psrData ?r1 = ?r1 \<or>
            (\<exists>mat. backfillMaterial psrData ?r1 = ?r1\<lparr>pipeMaterial := Some mat\<rparr>)"
    unfolding backfillMaterial_def
    by (cases "find (\<lambda>p. Some (entry.psr p) = psr ?r1) psrData") (simp_all, blast)
  from r1 r2 show ?thesis by auto
qed

lemma pipeMaterial_extractReport:
  "pipeMaterial (extractReport section w) =
     map_option trimmed
       (js_match (labelledUpTo ''Pipe material:'' not_nl [''Purpose:'', ''Lining Method:''])
          section)"
  by (simp add: extractReport_def)

lemma emptyMaterial_fields:
  "psr (extractReport emptyMaterialSection emptyMaterialSection) = Some ''797''"
  "pipeMaterial (extractReport emptyMaterialSection emptyMaterialSection) = Some []"
  unfolding psr_extractReport pipeMaterial_extractReport
  by (simp_all add: emptyMaterialSection_def ev split del: if_split)

lemma emptyMaterial_split:
  "js_split (LitI ''Inspection report'') (''Inspection report'' @ emptyMaterialSection)
     = [[], emptyMaterialSection]"
  by (simp add: emptyMaterialSection_def ev split del: if_split)

lemma emptyMaterial_reports:
  "extractInspectionReportData (''Inspection report'' @ emptyMaterialSection)
     = [extractReport emptyMaterialSection emptyMaterialSection]"
proof -
  have "hasKeys (extractReport emptyMaterialSection emptyMaterialSection)"
    by (simp add: hasKeys_def emptyMaterial_fields)
  then show ?thesis
    unfolding extractInspectionReportData_def emptyMaterial_split list.case reportsOf.simps Let_def
    by simp
qed

text \<open>
  C10, as the claim states it, fails. The report extracted from \<open>emptyMaterialSection\<close>
  has a \<open>pipeMaterial\<close>: its pattern captures the blank before \<open>Purpose:\<close>, and the
  trimmed capture is the empty string. The report has the PSR 797. Cross-referencing
  against the entry with that PSR replaces the extracted \<open>pipeMaterial\<close> by \<open>VCP\<close>,
  because the guard \<open>!report.pipeMaterial\<close> holds for the empty string as well.
\<close>

theorem crossReference_frame_counterexample:
  "extractInspectionReportData (''Inspection report'' @ emptyMaterialSection)
     = [extractReport emptyMaterialSection emptyMaterialSection] \<and>
   psr (extractReport emptyMaterialSection emptyMaterialSection) = Some ''797'' \<and>
   pipeMaterial (extractReport emptyMaterialSection emptyMaterialSection) = Some [] \<and>
   pipeMaterial
     (crossReference [spacedRow]
        (extractInspectionReportData (''Inspection report'' @ emptyMaterialSection)) ! 0)
     = Some ''VCP''"
proof -
  let ?r = "extractReport emptyMaterialSection emptyMaterialSection"
  have a: "backfillPsr [spacedRow] ?r = ?r"
    by (simp add: backfillPsr_def emptyMaterial_fields)
  have "pipeMaterial (backfillMaterial [spacedRow] ?r) = Some ''VCP''"
    by (simp add: backfillMaterial_def emptyMaterial_fields spacedRow_def)
  then show ?thesis
    unfolding emptyMaterial_reports by (simp add: emptyMaterial_fields crossReference_def a)
qed

text \<open>
  C10 (amended): cross-referencing keeps the number and the order of the reports; of a
  report it changes at most \<open>psr\<close> and \<open>pipeMaterial\<close>, and each of the two only when it
  was absent or the empty string before, which is what the guards test; a report that
  has a non-empty \<open>psr\<close> (or a non-empty \<open>pipeMaterial\<close>) keeps it. The entries of the
  Section Profile in the result are the extracted ones, and the reports are the
  extracted ones after cross-referencing against them.
\<close>

theorem crossReference_frame:
  "length (crossReference psrData reports) = length reports \<and>
   (\<forall>i<length reports.
      (crossReference psrData reports ! i)
        \<lparr>psr := psr (reports ! i), pipeMaterial := pipeMaterial (reports ! i)\<rparr> = reports ! i \<and>
      (truthy_str (psr (reports ! i)) \<longrightarrow>
         psr (crossReference psrData reports ! i) = psr (reports ! i)) \<and>
      (truthy_str (pipeMaterial (reports ! i)) \<longrightarrow>
         pipeMaterial (crossReference psrData reports ! i) = pipeMaterial (reports ! i))) \<and>
   (\<exists>d. parsePDF (PdfData text n) = Success d \<and>
        sectionProfile d = extractSectionProfileData text \<and>
        inspectionReports d =
          crossReference (extractSectionProfileData text) (extractInspectionReportData text))"
proof -
  have p: "truthy_str (psr r) \<longrightarrow> psr (backfillMaterial psrData (backfillPsr psrData r)) = psr r"
    for r using backfillPsr_frame[where psrData=psrData and r=r] by (simp add: backfillMaterial_psr)
  have q: "truthy_str (pipeMaterial r) \<longrightarrow>
             pipeMaterial (backfillMaterial psrData (backfillPsr psrData r)) = pipeMaterial r"
    for r
    using backfillMaterial_frame[where psrData=psrData and r="backfillPsr psrData r"]
    by (auto simp: backfillPsr_material)
  have "\<exists>d. parsePDF (PdfData text n) = Success d \<and>
        sectionProfile d = extractSectionProfileData text \<and>
        inspectionReports d =
          crossReference (extractSectionProfileData text) (extractInspectionReportData text)"
    by (simp add: parsePDF_def Let_def)
  then show ?thesis
    by (simp add: crossReference_def backfill_frame p q)
qed

theorem crossReference_frame_witness:
  "(0::nat) < length [exampleReport] \<and>
   (crossReference [spacedRow] [exampleReport] ! 0)
     \<lparr>psr := psr exampleReport, pipeMaterial := pipeMaterial exampleReport\<rparr> = exampleReport \<and>
   truthy_str (psr (exampleReport\<lparr>psr := Some ''5''\<rparr>)) \<and>
   psr (crossReference [spacedRow] [exampleReport\<lparr>psr := Some ''5''\<rparr>] ! 0) = Some ''5'' \<and>
   truthy_str (pipeMaterial (exampleReport\<lparr>psr := Some ''797'', pipeMaterial := Some ''PVC''\<rparr>)) \<and>
   pipeMaterial (crossReference [spacedRow]
                   [exampleReport\<lparr>psr := Some ''797'', pipeMaterial := Some ''PVC''\<rparr>] ! 0)
     = Some ''PVC''"
proof -
  from crossReference_frame[of "[spacedRow]" "[exampleReport]"]
  have a: "(crossReference [spacedRow] [exampleReport] ! 0)
     \<lparr>psr := psr exampleReport, pipeMaterial := pipeMaterial exampleReport\<rparr> = exampleReport"
    by simp
  have t: "truthy_str (psr (exampleReport\<lparr>psr := Some ''5''\<rparr>))" by simp
  from crossReference_frame[of "[spacedRow]" "[exampleReport\<lparr>psr := Some ''5''\<rparr>]"] t
  have b: "psr (crossReference [spacedRow] [exampleReport\<lparr>psr := Some ''5''\<rparr>] ! 0) = Some ''5''"
    by simp
  have u: "truthy_str (pipeMaterial (exampleReport\<lparr>psr := Some ''797'', pipeMaterial := Some ''PVC''\<rparr>))"
    by simp
  from crossReference_frame[of "[spacedRow]"
         "[exampleReport\<lparr>psr := Some ''797'', pipeMaterial := Some ''PVC''\<rparr>]"] u
  have c: "pipeMaterial (crossReference [spacedRow]
                   [exampleReport\<lparr>psr := Some ''797'', pipeMaterial := Some ''PVC''\<rparr>] ! 0)
     = Some ''PVC''"
    by simp
  from a b c show ?thesis by simp
qed

section \<open>The concatenated ratings layout\<close>

lemma ratings_extractReport:
  "qsr (extractReport section w) =
     (if usedConcatenatedFormat w then
        (case concatValues w of
           Some (qsrText, qmrText, decimals) \<Rightarrow> Some (parseInt qsrText) | None \<Rightarrow> None)
      else map_option parsedInt (js_match (ratingPattern ''QSR'' is_digit) w))"
  "qmr (extractReport section w) =
     (if usedConcatenatedFormat w then
        (case concatValues w of
           Some (qsrText, qmrText, decimals) \<Rightarrow> Some (parseInt qmrText) | None \<Rightarrow> None)
      else map_option parsedInt (js_match (ratingPattern ''QMR'' is_digit) w))"
  "spr (extractReport section w) = rating w ''SPR'' 0"
  "mpr (extractReport section w) = rating w ''MPR'' 1"
  "opr (extractReport section w) = rating w ''OPR'' 5"
  "spri (extractReport section w) = rating w ''SPRI'' 2"
  "mpri (extractReport section w) = rating w ''MPRI'' 3"
  by (simp_all add: extractReport_def)

lemma digit_not_space: "is_digit c \<Longrightarrow> \<not> is_space c"
  by (auto simp: is_digit_def is_space_def)

lemma digit_val_le: "digit_val c \<le> 9"
  by (simp add: digit_val_def)

lemma foldl_digits_bound:
  "foldl (\<lambda>a c. 10 * a + digit_val c) a ds < (a + 1) * 10 ^ length ds"
proof (induction ds arbitrary: a)
  case Nil
  show ?case by simp
next
  case (Cons c cs)
  have "foldl (\<lambda>a c. 10 * a + digit_val c) (10 * a + digit_val c) cs
          < (10 * a + digit_val c + 1) * 10 ^ length cs" by (rule Cons.IH)
  also have "\<dots> \<le> (10 * a + 10) * 10 ^ length cs"
    using digit_val_le[of c] by (intro mult_right_mono) simp_all
  finally show ?case by (simp add: algebra_simps)
qed

lemma nat_of_digits_bound: "nat_of_digits ds < 10 ^ length ds"
  using foldl_digits_bound[of 0 ds] by (simp add: nat_of_digits_def)

text \<open>
  On a non-empty string of at most fifteen digits \<open>parseInt\<close> is the number the digits
  write.
\<close>

lemma parseInt_digits:
  assumes "ds \<noteq> []" "\<forall>c\<in>set ds. is_digit c" "length ds \<le> 15"
  shows "parseInt ds = Num (of_nat (nat_of_digits ds))"
proof -
  from assms obtain c cs where ds: "ds = c # cs" by (cases ds) auto
  with assms(2) have "\<not> is_space c" by (simp add: digit_not_space)
  with ds have dw: "dropWhile is_space ds = ds" by simp
  from assms(2) have tw: "takeWhile is_digit ds = ds" by simp
  have "nat_of_digits ds < 10 ^ length ds" by (rule nat_of_digits_bound)
  also have "(10::nat) ^ length ds \<le> 10 ^ 15" using assms(3) by (intro power_increasing) simp_all
  also have "(10::nat) ^ 15 < 2 ^ 53" by simp
  finally have "toDouble (of_nat (nat_of_digits ds)) = Num (of_nat (nat_of_digits ds))"
    by (rule toDouble_nat)
  then show ?thesis unfolding parseInt_def Let_def dw tw using assms(1) by simp
qed

lemma concatValues_SomeD:
  assumes "concatValues w = Some (a, b, ds)"
  shows "\<exists>cm. js_match concatPattern w = Some cm \<and> a = substring (grp cm 1) 0 4 \<and>
              b = substring (grp cm 1) 4 8 \<and>
              ds = map whole (js_matchAll decimalPattern (substring_from (grp cm 1) 8)) \<and>
              6 \<le> length ds"
  using assms by (auto simp: concatValues_def Let_def split: option.splits if_splits)

lemma concat_window_values:
  "js_match (ratingPattern ''QSR'' is_digit) concatWindow = None"
  "js_match concatPattern concatWindow =
     Some (0, concatWindow, [(1, ''110031001.03.01.03.02.04.0'')])"
  by (simp_all add: concatWindow_def ev split del: if_split)

lemma concat_window_tokens:
  "map whole (js_matchAll decimalPattern ''1.03.01.03.02.04.0'') =
     [''1.0'', ''3.0'', ''1.0'', ''3.0'', ''2.0'', ''4.0'']"
  by (simp add: ev split del: if_split)

lemma concat_window_concatValues:
  "concatValues concatWindow =
     Some (''1100'', ''3100'', [''1.0'', ''3.0'', ''1.0'', ''3.0'', ''2.0'', ''4.0''])"
proof -
  have s: "substring ''110031001.03.01.03.02.04.0'' 0 4 = ''1100''"
    "substring ''110031001.03.01.03.02.04.0'' 4 8 = ''3100''"
    "substring_from ''110031001.03.01.03.02.04.0'' 8 = ''1.03.01.03.02.04.0''"
    by (simp_all add: substring_def substring_from_def)
  have l: "length (js_matchAll decimalPattern ''1.03.01.03.02.04.0'') = 6"
    using arg_cong[OF concat_window_tokens, of length] by simp
  show ?thesis
    by (simp add: concatValues_def concat_window_values grp_def Let_def s concat_window_tokens l)
qed

lemma concat_window_numbers:
  "parseInt ''1100'' = Num 1100" "parseInt ''3100'' = Num 3100"
  "parseFloat ''1.0'' = Num 1" "parseFloat ''2.0'' = Num 2"
  "parseFloat ''3.0'' = Num 3" "parseFloat ''4.0'' = Num 4"
  by (simp_all add: ev split del: if_split)

lemma dotted_window_values:
  "js_match (ratingPattern ''QSR'' is_digit) dottedWindow = None"
  "js_match concatPattern dottedWindow =
     Some (0, dottedWindow, [(1, ''1.02.03.04.05.06.07.08.09.0'')])"
  by (simp_all add: dottedWindow_def ev split del: if_split)

lemma dotted_window_tokens:
  "map whole (js_matchAll decimalPattern ''04.05.06.07.08.09.0'') =
     [''4.0'', ''5.0'', ''6.0'', ''7.0'', ''8.0'', ''9.0'']"
  by (simp add: ev split del: if_split)

lemma dotted_window_concatValues:
  "concatValues dottedWindow =
     Some (''1.02'', ''.03.'', [''4.0'', ''5.0'', ''6.0'', ''7.0'', ''8.0'', ''9.0''])"
proof -
  have s: "substring ''1.02.03.04.05.06.07.08.09.0'' 0 4 = ''1.02''"
    "substring ''1.02.03.04.05.06.07.08.09.0'' 4 8 = ''.03.''"
    "substring_from ''1.02.03.04.05.06.07.08.09.0'' 8 = ''04.05.06.07.08.09.0''"
    by (simp_all add: substring_def substring_from_def)
  have l: "length (js_matchAll decimalPattern ''04.05.06.07.08.09.0'') = 6"
    using arg_cong[OF dotted_window_tokens, of length] by simp
  show ?thesis
    by (simp add: concatValues_def dotted_window_values grp_def Let_def s dotted_window_tokens l)
qed

lemma dotted_window_numbers: "parseInt ''1.02'' = Num 1" "parseInt ''.03.'' = NaN"
  by (simp_all add: ev split del: if_split)

text \<open>
  C2, as the claim states it, fails. The concatenated layout is used for the window
  \<open>dottedWindow\<close>. The first four digits of its line of values are 1020 and the next
  four are 3040; the code takes the first four characters, \<open>1.02\<close>, and the next four,
  \<open>.03.\<close>, so \<open>qsr\<close> is 1 and \<open>qmr\<close> is NaN.
\<close>

theorem concatenated_fallback_counterexample:
  "usedConcatenatedFormat dottedWindow \<and>
   js_match concatPattern dottedWindow =
     Some (0, dottedWindow, [(1, ''1.02.03.04.05.06.07.08.09.0'')]) \<and>
   take 4 (filter is_digit ''1.02.03.04.05.06.07.08.09.0'') = ''1020'' \<and>
   take 4 (drop 4 (filter is_digit ''1.02.03.04.05.06.07.08.09.0'')) = ''3040'' \<and>
   qsr (extractReport [] dottedWindow) = Some (Num 1) \<and>
   qmr (extractReport [] dottedWindow) = Some NaN"
proof -
  have u: "usedConcatenatedFormat dottedWindow"
    by (simp add: usedConcatenatedFormat_def dotted_window_values dotted_window_concatValues)
  have d: "take 4 (filter is_digit ''1.02.03.04.05.06.07.08.09.0'') = ''1020''"
    "take 4 (drop 4 (filter is_digit ''1.02.03.04.05.06.07.08.09.0'')) = ''3040''"
    by (simp_all add: is_digit_def)
  have q: "qsr (extractReport [] dottedWindow) = Some (Num 1)"
    "qmr (extractReport [] dottedWindow) = Some NaN"
    by (simp_all add: ratings_extractReport u dotted_window_concatValues dotted_window_numbers)
  from u d q show ?thesis by (simp add: dotted_window_values)
qed

text \<open>
  C2 (amended): when the concatenated layout is used for a ratings window, \<open>qsr\<close> is read
  from the first four characters of the line of values and \<open>qmr\<close> from the next four;
  when the line begins with eight digits, these are the numbers that its first four
  and its next four digits write. The tokens of the shape digit, dot, digit in what
  follows the eighth character are assigned in the order SPR, MPR, SPRI, MPRI, OPRI,
  OPR. The line of values 110031001.03.01.03.02.04.0 gives qsr 1100, qmr 3100, spr 1.0,
  mpr 3.0, spri 1.0, mpri 3.0, opri 2.0 and opr 4.0.
\<close>

theorem concatenated_fallback_order:
  "(usedConcatenatedFormat w \<longrightarrow>
      (\<exists>cm. js_match concatPattern w = Some cm \<and>
         (let v = grp cm 1;
              decimals = map whole (js_matchAll decimalPattern (substring_from v 8));
              r = extractReport section w
          in 6 \<le> length decimals \<and>
             qsr r = Some (parseInt (substring v 0 4)) \<and>
             qmr r = Some (parseInt (substring v 4 8)) \<and>
             spr r = Some (parseFloat (decimals ! 0)) \<and>
             mpr r = Some (parseFloat (decimals ! 1)) \<and>
             spri r = Some (parseFloat (decimals ! 2)) \<and>
             mpri r = Some (parseFloat (decimals ! 3)) \<and>
             opri r = Some (parseFloat (decimals ! 4)) \<and>
             opr r = Some (parseFloat (decimals ! 5)) \<and>
             (8 \<le> length v \<and> (\<forall>c\<in>set (take 8 v). is_digit c) \<longrightarrow>
                qsr r = Some (Num (of_nat (nat_of_digits (take 4 v)))) \<and>
                qmr r = Some (Num (of_nat (nat_of_digits (take 4 (drop 4 v))))))))) \<and>
   usedConcatenatedFormat concatWindow \<and>
   qsr (extractReport section concatWindow) = Some (Num 1100) \<and>
   qmr (extractReport section concatWindow) = Some (Num 3100) \<and>
   spr (extractReport section concatWindow) = Some (Num 1) \<and>
   mpr (extractReport section concatWindow) = Some (Num 3) \<and>
   spri (extractReport section concatWindow) = Some (Num 1) \<and>
   mpri (extractReport section concatWindow) = Some (Num 3) \<and>
   opri (extractReport section concatWindow) = Some (Num 2) \<and>
   opr (extractReport section concatWindow) = Some (Num 4)"
proof -
  have gen: "\<exists>cm. js_match concatPattern w = Some cm \<and>
         (let v = grp cm 1;
              decimals = map whole (js_matchAll decimalPattern (substring_from v 8));
              r = extractReport section w
          in 6 \<le> length decimals \<and>
             qsr r = Some (parseInt (substring v 0 4)) \<and>
             qmr r = Some (parseInt (substring v 4 8)) \<and>
             spr r = Some (parseFloat (decimals ! 0)) \<and>
             mpr r = Some (parseFloat (decimals ! 1)) \<and>
             spri r = Some (parseFloat (decimals ! 2)) \<and>
             mpri r = Some (parseFloat (decimals ! 3)) \<and>
             opri r = Some (parseFloat (decimals ! 4)) \<and>
             opr r = Some (parseFloat (decimals ! 5)) \<and>
             (8 \<le> length v \<and> (\<forall>c\<in>set (take 8 v). is_digit c) \<longrightarrow>
                qsr r = Some (Num (of_nat (nat_of_digits (take 4 v)))) \<and>
                qmr r = Some (Num (of_nat (nat_of_digits (take 4 (drop 4 v)))))))"
    if u: "usedConcatenatedFormat w"
  proof -
    from u obtain a b ds where cv: "concatValues w = Some (a, b, ds)"
      by (auto simp: usedConcatenatedFormat_def)
    from concatValues_SomeD[OF cv] obtain cm where
      cm: "js_match concatPattern w = Some cm" and a: "a = substring (grp cm 1) 0 4"
      and b: "b = substring (grp cm 1) 4 8"
      and ds: "ds = map whole (js_matchAll decimalPattern (substring_from (grp cm 1) 8))"
      and len: "6 \<le> length ds" by blast
    let ?v = "grp cm 1"
    have dig: "parseInt a = Num (of_nat (nat_of_digits (take 4 ?v))) \<and>
               parseInt b = Num (of_nat (nat_of_digits (take 4 (drop 4 ?v))))"
      if l: "8 \<le> length ?v" and d: "\<forall>c\<in>set (take 8 ?v). is_digit c"
    proof -
      from l have a': "a = take 4 ?v" and b': "b = take 4 (drop 4 ?v)"
        by (simp_all add: a b substring_take_drop)
      from l have ne: "take 4 ?v \<noteq> []" "take 4 (drop 4 ?v) \<noteq> []" by auto
      have "set (take 4 ?v) \<subseteq> set (take 8 ?v)"
        by (metis set_take_subset_set_take numeral_le_iff semiring_norm(69,71,72) le_num_simps(6)
              num.distinct nat_le_linear order_refl numeral_eq_iff)
      with d have d1: "\<forall>c\<in>set (take 4 ?v). is_digit c" by blast
      have "take 8 ?v = take 4 ?v @ take 4 (drop 4 ?v)"
        by (simp add: take_add[of 4 4 ?v, simplified])
      with d have d2: "\<forall>c\<in>set (take 4 (drop 4 ?v)). is_digit c" by simp
      from parseInt_digits[OF ne(1) d1] parseInt_digits[OF ne(2) d2] a' b' show ?thesis by simp
    qed
    from cm cv u a b ds len dig show ?thesis
      by (simp add: Let_def ratings_extractReport opri_extractReport rating_def)
  qed
  have u: "usedConcatenatedFormat concatWindow"
    by (simp add: usedConcatenatedFormat_def concat_window_values concat_window_concatValues)
  have ex: "qsr (extractReport section concatWindow) = Some (Num 1100)"
    "qmr (extractReport section concatWindow) = Some (Num 3100)"
    "spr (extractReport section concatWindow) = Some (Num 1)"
    "mpr (extractReport section concatWindow) = Some (Num 3)"
    "spri (extractReport section concatWindow) = Some (Num 1)"
    "mpri (extractReport section concatWindow) = Some (Num 3)"
    "opri (extractReport section concatWindow) = Some (Num 2)"
    "opr (extractReport section concatWindow) = Some (Num 4)"
    by (simp_all add: ratings_extractReport opri_extractReport rating_def u
          concat_window_concatValues concat_window_numbers)
  from gen u ex show ?thesis by blast
qed

theorem concatenated_fallback_order_witness:
  "usedConcatenatedFormat concatWindow \<and>
   js_match concatPattern concatWindow
     = Some (0, concatWindow, [(1, ''110031001.03.01.03.02.04.0'')]) \<and>
   8 \<le> length ''110031001.03.01.03.02.04.0'' \<and>
   list_all is_digit (take 8 ''110031001.03.01.03.02.04.0'') \<and>
   qsr (extractReport [] concatWindow) = Some (Num (of_nat (nat_of_digits ''1100''))) \<and>
   qmr (extractReport [] concatWindow) = Some (Num (of_nat (nat_of_digits ''3100''))) \<and>
   opri (extractReport [] concatWindow) = Some (parseFloat ''2.0'') \<and>
   opr (extractReport [] concatWindow) = Some (parseFloat ''4.0'')"
proof -
  let ?v = "''110031001.03.01.03.02.04.0''"
  note th = concatenated_fallback_order[of concatWindow "[]"]
  have u: "usedConcatenatedFormat concatWindow"
    by (rule th[THEN conjunct2, THEN conjunct1])
  have d: "\<forall>c\<in>set (take 8 ?v). is_digit c" by (simp add: is_digit_def)
  have t: "substring_from ?v 8 = ''1.03.01.03.02.04.0''"
    by (simp add: substring_def substring_from_def)
  from th[THEN conjunct1, rule_format, OF u] d show ?thesis
    unfolding concat_window_values(2) Let_def
    by (auto simp add: u grp_def t concat_window_tokens)
qed

section \<open>A document without text\<close>

lemma extract_empty:
  "extractSectionProfileData [] = []" "extractInspectionReportData [] = []"
  by (simp_all add: extractSectionProfileData_def extractInspectionReportData_def ev
        split del: if_split)

text \<open>
  C8 fails for \<open>parsePDF\<close>. When the text extracted from the document is empty, the
  result is the object with \<open>success: true\<close> and two empty record lists; nothing tests
  the length of the text. The position-aware variant does test it and rejects with an
  error.
\<close>

theorem parsePDF_empty_text:
  "parsePDF (PdfData [] n) =
     Success \<lparr> rawText = [], sectionProfile = [], inspectionReports = [],
               metadata = \<lparr> totalPages = n, totalPSREntries = 0,
                            totalInspectionReports = 0, totalObservations = 0 \<rparr> \<rparr> \<and>
   parsePDFWithPositioning [] n = Inl ''No text extracted from PDF - pdf2json failed''"
  by (simp add: parsePDF_def extract_empty crossReference_def countObservations_def
        parsePDFWithPositioning_def)

end
